theory Spec2Isabelle
  imports Complex_Main
begin

section \<open>Tensor values\<close>

text \<open>
  A tensor element is a floating-point number. Finite elements are modelled by exact
  reals (no rounding, no overflow, no signed zero); the three special values of the
  floating-point format are kept, because a division by zero produces them and every
  later operation of \<^verbatim>\<open>backward_G\<close> carries them on.
\<close>

datatype fl = Fin real | PInf | NInf | NaN

fun finite_fl :: "fl \<Rightarrow> bool" where
  "finite_fl (Fin x) = True"
| "finite_fl PInf = False"
| "finite_fl NInf = False"
| "finite_fl NaN = False"

fun fneg :: "fl \<Rightarrow> fl" where
  "fneg (Fin x) = Fin (- x)"
| "fneg PInf = NInf"
| "fneg NInf = PInf"
| "fneg NaN = NaN"

fun fadd :: "fl \<Rightarrow> fl \<Rightarrow> fl" where
  "fadd (Fin x) (Fin y) = Fin (x + y)"
| "fadd (Fin x) PInf = PInf"
| "fadd (Fin x) NInf = NInf"
| "fadd (Fin x) NaN = NaN"
| "fadd PInf (Fin y) = PInf"
| "fadd PInf PInf = PInf"
| "fadd PInf NInf = NaN"
| "fadd PInf NaN = NaN"
| "fadd NInf (Fin y) = NInf"
| "fadd NInf PInf = NaN"
| "fadd NInf NInf = NInf"
| "fadd NInf NaN = NaN"
| "fadd NaN y = NaN"

definition fsub :: "fl \<Rightarrow> fl \<Rightarrow> fl" where
  "fsub x y = fadd x (fneg y)"

text \<open>The sign of an infinite product or quotient: positive when \<open>pos\<close> holds.\<close>

definition signed_inf :: "bool \<Rightarrow> fl" where
  "signed_inf pos = (if pos then PInf else NInf)"

fun fmul :: "fl \<Rightarrow> fl \<Rightarrow> fl" where
  "fmul (Fin x) (Fin y) = Fin (x * y)"
| "fmul (Fin x) PInf = (if x = 0 then NaN else signed_inf (0 < x))"
| "fmul (Fin x) NInf = (if x = 0 then NaN else signed_inf (x < 0))"
| "fmul (Fin x) NaN = NaN"
| "fmul PInf (Fin y) = (if y = 0 then NaN else signed_inf (0 < y))"
| "fmul PInf PInf = PInf"
| "fmul PInf NInf = NInf"
| "fmul PInf NaN = NaN"
| "fmul NInf (Fin y) = (if y = 0 then NaN else signed_inf (y < 0))"
| "fmul NInf PInf = NInf"
| "fmul NInf NInf = PInf"
| "fmul NInf NaN = NaN"
| "fmul NaN y = NaN"

text \<open>
  Division: a finite number divided by zero is an infinity of its sign, zero divided
  by zero is \<open>NaN\<close>, a finite number divided by an infinity is zero.
\<close>

fun fdiv :: "fl \<Rightarrow> fl \<Rightarrow> fl" where
  "fdiv (Fin x) (Fin y) =
     (if y \<noteq> 0 then Fin (x / y) else if x = 0 then NaN else signed_inf (0 < x))"
| "fdiv (Fin x) PInf = Fin 0"
| "fdiv (Fin x) NInf = Fin 0"
| "fdiv (Fin x) NaN = NaN"
| "fdiv PInf (Fin y) = signed_inf (0 \<le> y)"
| "fdiv NInf (Fin y) = signed_inf (y < 0)"
| "fdiv PInf PInf = NaN"
| "fdiv PInf NInf = NaN"
| "fdiv PInf NaN = NaN"
| "fdiv NInf PInf = NaN"
| "fdiv NInf NInf = NaN"
| "fdiv NInf NaN = NaN"
| "fdiv NaN y = NaN"

fun fabs :: "fl \<Rightarrow> fl" where
  "fabs (Fin x) = Fin \<bar>x\<bar>"
| "fabs PInf = PInf"
| "fabs NInf = PInf"
| "fabs NaN = NaN"

fun fsqrt :: "fl \<Rightarrow> fl" where
  "fsqrt (Fin x) = (if 0 \<le> x then Fin (sqrt x) else NaN)"
| "fsqrt PInf = PInf"
| "fsqrt NInf = NaN"
| "fsqrt NaN = NaN"

definition fsq :: "fl \<Rightarrow> fl" where
  "fsq x = fmul x x"

definition fsum :: "fl list \<Rightarrow> fl" where
  "fsum xs = foldr fadd xs (Fin 0)"

text \<open>\<^verbatim>\<open>.mean()\<close> of a flat list of elements: the sum divided by the count.\<close>

definition fmean :: "fl list \<Rightarrow> fl" where
  "fmean xs = fdiv (fsum xs) (Fin (real (length xs)))"

section \<open>Tensors\<close>

text \<open>
  An image batch is a tensor of shape (batch, channels, H, W), held as nested lists
  in that axis order, together with the flag that says whether the autograd graph
  tracks it. The nested lists are meant rectangular with every axis of extent at
  least one: an axis of extent zero hides the extents of the axes under it.
\<close>

type_synonym data4 = "fl list list list list"

datatype tensor = Tensor (requires_grad: bool) (data: data4)

text \<open>\<^verbatim>\<open>fake.detach()\<close>: the same data, cut from the graph.\<close>

definition detach :: "tensor \<Rightarrow> tensor" where
  "detach t = Tensor False (data t)"

text \<open>
  The names under which the model object, the networks, the optimizers, the image
  pools and the criteria are reached. The four per-sample norm vectors carry a
  trailing underscore in the source (\<^verbatim>\<open>self.real_diff_A_\<close>); here they end in
  \<open>_mag\<close>.
\<close>

datatype net_id = G_A | G_B | D_A | D_B

datatype optim = Opt_G | Opt_D

datatype pool = Pool_A | Pool_B

datatype tname =
    real_A | real_B | real_diff_A | real_diff_B
  | fake_A | fake_B | rec_A | rec_B | diff_A | diff_B
  | idt_A | idt_B | idt_A_s | idt_B_s
  | real_diff_A_norm | real_diff_B_norm | diff_A_norm | diff_B_norm

datatype vname = real_diff_A_mag | real_diff_B_mag | diff_A_mag | diff_B_mag

datatype lname =
    loss_idt_A_t | loss_idt_B_t | loss_idt_A_s | loss_idt_B_s | loss_idt_A | loss_idt_B
  | loss_G_A | loss_G_B | loss_cycle_A | loss_cycle_B | loss_diff_A | loss_diff_B
  | loss_G | loss_D_A | loss_D_B

datatype attr =
    T tname | V vname | L lname | Net net_id | Optimizer optim | Image_pool pool
  | CriterionGAN | CriterionCycle | CriterionIdt | Method string

datatype error =
    AttributeError attr
  | KeyError string
  | AssertionError
  | RuntimeError string

section \<open>Tensor operations used by the losses\<close>

fun mapE :: "('a \<Rightarrow> error + 'b) \<Rightarrow> 'a list \<Rightarrow> error + 'b list" where
  "mapE f [] = Inr []"
| "mapE f (x # xs) =
     (case f x of
        Inl e \<Rightarrow> Inl e
      | Inr y \<Rightarrow> (case mapE f xs of Inl e \<Rightarrow> Inl e | Inr ys \<Rightarrow> Inr (y # ys)))"

text \<open>
  Broadcasting of a binary operation along one axis: extents must be equal, or one of
  them is one and that operand is repeated; any other pair of extents raises the
  \<^verbatim>\<open>RuntimeError\<close> of a size mismatch.
\<close>

definition bzip :: "('a \<Rightarrow> 'b \<Rightarrow> error + 'c) \<Rightarrow> 'a list \<Rightarrow> 'b list \<Rightarrow> error + 'c list" where
  "bzip f xs ys =
     (if length xs = length ys then mapE (\<lambda>(x, y). f x y) (zip xs ys)
      else if length xs = 1 then mapE (\<lambda>y. f (hd xs) y) ys
      else if length ys = 1 then mapE (\<lambda>x. f x (hd ys)) xs
      else Inl (RuntimeError ''size mismatch''))"

text \<open>\<^verbatim>\<open>x - y\<close> on two tensors of four axes, broadcast axis by axis.\<close>

definition sub44 :: "data4 \<Rightarrow> data4 \<Rightarrow> error + data4" where
  "sub44 x y = bzip (bzip (bzip (bzip (\<lambda>a b. Inr (fsub a b))))) x y"

text \<open>
  \<^verbatim>\<open>x / n\<close> for \<open>x\<close> of shape (B, C, H, W) and \<open>n\<close> of shape (B,): broadcasting
  aligns shapes at their last axes, so the single axis of \<open>n\<close> meets the W axis of
  \<open>x\<close>, and the three leading axes of \<open>x\<close> meet extent one.
\<close>

definition div41 :: "data4 \<Rightarrow> fl list \<Rightarrow> error + data4" where
  "div41 x n = mapE (mapE (mapE (\<lambda>row. bzip (\<lambda>a b. Inr (fdiv a b)) row n))) x"

text \<open>
  \<^verbatim>\<open>torch.norm(x, dim=1)\<close>: the Euclidean norm over the channel axis, of shape
  (B, H, W). For one sample, the channels are first regrouped by row, then by pixel.
\<close>

definition norm_sample :: "fl list list list \<Rightarrow> fl list list" where
  "norm_sample chs =
     map (\<lambda>rows. map (\<lambda>px. fsqrt (fsum (map fsq px))) (transpose rows)) (transpose chs)"

definition norm_dim1 :: "data4 \<Rightarrow> fl list list list" where
  "norm_dim1 x = map norm_sample x"

text \<open>\<^verbatim>\<open>.mean(dim=(1,2))\<close> on shape (B, H, W): one mean per sample.\<close>

definition mean_dim12 :: "fl list list list \<Rightarrow> fl list" where
  "mean_dim12 x = map (\<lambda>hw. fmean (concat hw)) x"

text \<open>\<^verbatim>\<open>.mean()\<close> on shape (B, H, W): the mean of all elements.\<close>

definition mean3 :: "fl list list list \<Rightarrow> fl" where
  "mean3 x = fmean (concat (concat x))"

definition mean4 :: "data4 \<Rightarrow> fl" where
  "mean4 x = fmean (concat (concat (concat x)))"

text \<open>
  \<^verbatim>\<open>torch.nn.L1Loss()\<close>, the criterion of the cycle and identity losses: the mean of
  the absolute element-wise difference.
\<close>

definition L1Loss :: "tensor \<Rightarrow> tensor \<Rightarrow> error + fl" where
  "L1Loss a b =
     (case sub44 (data a) (data b) of
        Inl e \<Rightarrow> Inl e
      | Inr d \<Rightarrow> Inr (mean4 (map (map (map (map fabs))) d)))"

text \<open>The per-sample norm of lines 214 to 217: \<^verbatim>\<open>torch.norm(x, dim=1).mean(dim=(1,2))\<close>.\<close>

definition sample_norms :: "tensor \<Rightarrow> fl list" where
  "sample_norms t = mean_dim12 (norm_dim1 (data t))"

text \<open>The normalisation of lines 220 to 223: \<^verbatim>\<open>x / x_\<close>.\<close>

definition normalize :: "tensor \<Rightarrow> fl list \<Rightarrow> error + tensor" where
  "normalize t n =
     (case div41 (data t) n of Inl e \<Rightarrow> Inl e | Inr d \<Rightarrow> Inr (Tensor (requires_grad t) d))"

text \<open>
  The direction discrepancy of lines 233 and 234:
  \<^verbatim>\<open>torch.norm(a - b, dim=1).mean()\<close>.
\<close>

definition diff_discrepancy :: "tensor \<Rightarrow> tensor \<Rightarrow> error + fl" where
  "diff_discrepancy a b =
     (case sub44 (data a) (data b) of
        Inl e \<Rightarrow> Inl e
      | Inr d \<Rightarrow> Inr (mean3 (norm_dim1 d)))"

section \<open>The model object and its collaborators\<close>

text \<open>The experiment flags read by the model (\<^verbatim>\<open>opt\<close>).\<close>

record options =
  isTrain :: bool
  dataset_type :: string
  direction :: string
  phase :: string
  input_nc :: nat
  output_nc :: nat
  lambda_A :: real
  lambda_B :: real
  lambda_identity_t :: real
  lambda_identity_s :: real
  lambda_diff_s :: real
  lambda_diff_t :: real

text \<open>
  What a run does to its collaborators, in the order it does it: a network is
  evaluated on a batch, gradient tracking of networks is switched, an optimizer's
  gradients are zeroed, a loss is back-propagated, an optimizer steps, an image pool
  is queried.
\<close>

datatype event =
    Call_net net_id tensor
  | Set_requires_grad "net_id list" bool
  | Zero_grad optim
  | Backward fl
  | Step optim
  | Pool_query pool tensor

datatype pyvalue = VTensor tensor | VPaths "string list"

text \<open>
  The object \<^verbatim>\<open>self\<close>. An attribute that has not been assigned is \<open>None\<close>; reading
  it raises \<^verbatim>\<open>AttributeError\<close>. The weights of a network are of an abstract type
  \<open>'w\<close>. The optimizers, the pools and the criteria exist when the constructor ran
  with \<^verbatim>\<open>isTrain\<close> (\<open>train_attrs\<close>).
\<close>

record 'w model =
  opt :: options
  train_attrs :: bool
  nets :: "net_id \<Rightarrow> 'w option"
  net_requires_grad :: "net_id \<Rightarrow> bool"
  tensors :: "tname \<Rightarrow> tensor option"
  vectors :: "vname \<Rightarrow> fl list option"
  losses :: "lname \<Rightarrow> fl option"
  image_paths :: "pyvalue option"
  trace :: "event list"

text \<open>
  The code this file does not contain, taken as parameters: the generator and
  discriminator networks (\<^verbatim>\<open>networks.define_G\<close>, \<^verbatim>\<open>networks.define_D\<close> and their forward
  evaluation), \<^verbatim>\<open>torchsummary.summary\<close>, \<^verbatim>\<open>networks.GANLoss\<close>, \<^verbatim>\<open>ImagePool.query\<close>,
  the construction of pools, criteria and optimizers, and the Adam step. Each may
  raise. A pool's answer and an optimizer's step depend on what happened before, so
  they receive the run's history. The Adam step updates the weights in place: it gives
  its outcome together with the weights it leaves in the networks, which, when it
  raises, may be those of an update that was only partly made.
\<close>

record 'w env =
  define_G :: "nat \<Rightarrow> nat \<Rightarrow> options \<Rightarrow> error + 'w"
  define_D :: "nat \<Rightarrow> options \<Rightarrow> error + 'w"
  summary :: "'w \<Rightarrow> nat \<times> nat \<times> nat \<Rightarrow> error + unit"
  train_setup :: "options \<Rightarrow> error + unit"
  net_G :: "net_id \<Rightarrow> 'w \<Rightarrow> tensor \<Rightarrow> error + tensor \<times> tensor"
  net_D :: "net_id \<Rightarrow> 'w \<Rightarrow> tensor \<Rightarrow> error + tensor"
  criterionGAN :: "tensor \<Rightarrow> bool \<Rightarrow> error + fl"
  pool_query :: "pool \<Rightarrow> event list \<Rightarrow> tensor \<Rightarrow> error + tensor"
  optimizer_step :: "event list \<Rightarrow> optim \<Rightarrow> (net_id \<Rightarrow> 'w option)
    \<Rightarrow> (error + unit) \<times> (net_id \<Rightarrow> 'w option)"

section \<open>Statements that may raise\<close>

text \<open>
  A method is a function from the object to a result and the object as the method
  left it: an exception keeps every assignment made before it was raised.
\<close>

type_synonym ('s, 'a) m = "'s \<Rightarrow> (error + 'a) \<times> 's"

definition ret :: "'a \<Rightarrow> ('s, 'a) m" where
  "ret x = (\<lambda>s. (Inr x, s))"

definition lift :: "error + 'a \<Rightarrow> ('s, 'a) m" where
  "lift r = (\<lambda>s. (r, s))"

definition bnd :: "('s, 'a) m \<Rightarrow> ('a \<Rightarrow> ('s, 'b) m) \<Rightarrow> ('s, 'b) m" where
  "bnd m f = (\<lambda>s. case m s of (Inl e, s') \<Rightarrow> (Inl e, s') | (Inr x, s') \<Rightarrow> f x s')"

definition thn :: "('s, unit) m \<Rightarrow> ('s, 'b) m \<Rightarrow> ('s, 'b) m" where
  "thn m k = bnd m (\<lambda>_. k)"

definition reads :: "('s \<Rightarrow> 'a) \<Rightarrow> ('s, 'a) m" where
  "reads f = (\<lambda>s. (Inr (f s), s))"

definition modify :: "('s \<Rightarrow> 's) \<Rightarrow> ('s, unit) m" where
  "modify f = (\<lambda>s. (Inr (), f s))"

definition attribute :: "attr \<Rightarrow> ('s \<Rightarrow> 'a option) \<Rightarrow> ('s, 'a) m" where
  "attribute a f =
     (\<lambda>s. case f s of None \<Rightarrow> (Inl (AttributeError a), s) | Some x \<Rightarrow> (Inr x, s))"

definition emit :: "event \<Rightarrow> ('w model, unit) m" where
  "emit ev = modify (\<lambda>s. s\<lparr>trace := trace s @ [ev]\<rparr>)"

definition get_tensor :: "tname \<Rightarrow> ('w model, tensor) m" where
  "get_tensor a = attribute (T a) (\<lambda>s. tensors s a)"

definition set_tensor :: "tname \<Rightarrow> tensor \<Rightarrow> ('w model, unit) m" where
  "set_tensor a x = modify (\<lambda>s. s\<lparr>tensors := (tensors s)(a \<mapsto> x)\<rparr>)"

definition get_vector :: "vname \<Rightarrow> ('w model, fl list) m" where
  "get_vector a = attribute (V a) (\<lambda>s. vectors s a)"

definition set_vector :: "vname \<Rightarrow> fl list \<Rightarrow> ('w model, unit) m" where
  "set_vector a x = modify (\<lambda>s. s\<lparr>vectors := (vectors s)(a \<mapsto> x)\<rparr>)"

definition get_loss :: "lname \<Rightarrow> ('w model, fl) m" where
  "get_loss a = attribute (L a) (\<lambda>s. losses s a)"

definition set_loss :: "lname \<Rightarrow> fl \<Rightarrow> ('w model, unit) m" where
  "set_loss a x = modify (\<lambda>s. s\<lparr>losses := (losses s)(a \<mapsto> x)\<rparr>)"

definition get_net :: "net_id \<Rightarrow> ('w model, 'w) m" where
  "get_net n = attribute (Net n) (\<lambda>s. nets s n)"

text \<open>Reading an attribute that only a training model has.\<close>

definition train_attr :: "attr \<Rightarrow> ('w model, unit) m" where
  "train_attr a = attribute a (\<lambda>s. if train_attrs s then Some () else None)"

section \<open>The methods of \<^verbatim>\<open>CycleGANModel\<close>\<close>

subsection \<open>\<^verbatim>\<open>__init__\<close>\<close>

definition new_model :: "options \<Rightarrow> (net_id \<Rightarrow> 'w option) \<Rightarrow> 'w model" where
  "new_model opts ns =
     \<lparr>opt = opts, train_attrs = isTrain opts, nets = ns, net_requires_grad = (\<lambda>_. True),
      tensors = (\<lambda>_. None), vectors = (\<lambda>_. None), losses = (\<lambda>_. None),
      image_paths = None, trace = []\<rparr>"

text \<open>
  The constructor, lines 56 to 115: the two generators are built; for training, the
  two discriminators are built, \<^verbatim>\<open>summary\<close> is run on \<^verbatim>\<open>netG_A\<close> and \<^verbatim>\<open>netD_A\<close> with
  the input size (14, 256, 256), the channel counts are asserted equal when
  \<^verbatim>\<open>opt.lambda_identity_t > 0.0\<close>, and the pools, criteria and optimizers are made.
\<close>

definition CycleGANModel_init :: "'w env \<Rightarrow> options \<Rightarrow> error + 'w model" where
  "CycleGANModel_init env opts =
     (case define_G env (input_nc opts) (output_nc opts) opts of Inl e \<Rightarrow> Inl e | Inr gA \<Rightarrow>
      case define_G env (output_nc opts) (input_nc opts) opts of Inl e \<Rightarrow> Inl e | Inr gB \<Rightarrow>
      if \<not> isTrain opts then Inr (new_model opts ((\<lambda>_. None)(G_A \<mapsto> gA, G_B \<mapsto> gB)))
      else
      case define_D env (output_nc opts) opts of Inl e \<Rightarrow> Inl e | Inr dA \<Rightarrow>
      case define_D env (input_nc opts) opts of Inl e \<Rightarrow> Inl e | Inr dB \<Rightarrow>
      case summary env gA (14, 256, 256) of Inl e \<Rightarrow> Inl e | Inr _ \<Rightarrow>
      case summary env dA (14, 256, 256) of Inl e \<Rightarrow> Inl e | Inr _ \<Rightarrow>
      if 0 < lambda_identity_t opts \<and> input_nc opts \<noteq> output_nc opts then Inl AssertionError
      else
      case train_setup env opts of Inl e \<Rightarrow> Inl e | Inr _ \<Rightarrow>
      Inr (new_model opts ((\<lambda>_. None)(G_A \<mapsto> gA, G_B \<mapsto> gB, D_A \<mapsto> dA, D_B \<mapsto> dB))))"

subsection \<open>\<^verbatim>\<open>set_input\<close>\<close>

definition item :: "(string \<rightharpoonup> pyvalue) \<Rightarrow> string \<Rightarrow> error + pyvalue" where
  "item d k = (case d k of None \<Rightarrow> Inl (KeyError k) | Some v \<Rightarrow> Inr v)"

text \<open>\<^verbatim>\<open>input[k].to(self.device)\<close>: the entry must be a tensor.\<close>

definition item_to_device :: "(string \<rightharpoonup> pyvalue) \<Rightarrow> string \<Rightarrow> error + tensor" where
  "item_to_device d k =
     (case item d k of
        Inl e \<Rightarrow> Inl e
      | Inr (VTensor t) \<Rightarrow> Inr t
      | Inr (VPaths ps) \<Rightarrow> Inl (AttributeError (Method ''to'')))"

definition set_input :: "(string \<rightharpoonup> pyvalue) \<Rightarrow> ('w model, unit) m" where
  "set_input inp =
     bnd (reads opt) (\<lambda>opts.
     thn (if dataset_type opts = ''common_images'' then
            bnd (ret (direction opts = ''AtoB'')) (\<lambda>AtoB.
            bnd (lift (item_to_device inp (if AtoB then ''A'' else ''B''))) (\<lambda>a.
            thn (set_tensor real_A a) (
            bnd (lift (item_to_device inp (if AtoB then ''B'' else ''A''))) (\<lambda>b.
            thn (set_tensor real_B b) (
            bnd (lift (item inp (if AtoB then ''A_paths'' else ''B_paths''))) (\<lambda>ps.
            modify (\<lambda>s. s\<lparr>image_paths := Some ps\<rparr>)))))))
          else ret ())
         (if dataset_type opts = ''remote_sensing_images'' then
            bnd (ret (direction opts = ''AtoB'')) (\<lambda>AtoB.
            bnd (lift (item_to_device inp (if AtoB then ''A'' else ''B''))) (\<lambda>a.
            thn (set_tensor real_A a) (
            bnd (lift (item_to_device inp (if AtoB then ''B'' else ''A''))) (\<lambda>b.
            thn (set_tensor real_B b) (
            if phase opts = ''train'' then
              bnd (lift (item_to_device inp (if AtoB then ''A_ref'' else ''B_ref''))) (\<lambda>ra.
              thn (set_tensor real_diff_A ra) (
              bnd (lift (item_to_device inp (if AtoB then ''B_ref'' else ''A_ref''))) (\<lambda>rb.
              set_tensor real_diff_B rb)))
            else ret ())))))
          else ret ()))"

subsection \<open>\<^verbatim>\<open>forward\<close>\<close>

text \<open>\<^verbatim>\<open>self.netG_X(self.a)\<close>: the network is looked up, then its argument, then it runs.\<close>

definition call_G :: "'w env \<Rightarrow> net_id \<Rightarrow> tname \<Rightarrow> ('w model, tensor \<times> tensor) m" where
  "call_G env n a =
     bnd (get_net n) (\<lambda>w.
     bnd (get_tensor a) (\<lambda>x.
     thn (emit (Call_net n x))
         (lift (net_G env n w x))))"

definition forward :: "'w env \<Rightarrow> ('w model, unit) m" where
  "forward env =
     bnd (call_G env G_A real_A) (\<lambda>(fb, da).
     thn (set_tensor fake_B fb) (
     thn (set_tensor diff_A da) (
     bnd (call_G env G_B fake_B) (\<lambda>(ra, _).
     thn (set_tensor rec_A ra) (
     bnd (call_G env G_B real_B) (\<lambda>(fa, db).
     thn (set_tensor fake_A fa) (
     thn (set_tensor diff_B db) (
     bnd (call_G env G_A fake_A) (\<lambda>(rb, _).
     set_tensor rec_B rb)))))))))"

subsection \<open>The discriminator losses\<close>

definition call_D :: "'w env \<Rightarrow> net_id \<Rightarrow> 'w \<Rightarrow> tensor \<Rightarrow> ('w model, tensor) m" where
  "call_D env n w x = thn (emit (Call_net n x)) (lift (net_D env n w x))"

definition backward_D_basic ::
  "'w env \<Rightarrow> net_id \<Rightarrow> 'w \<Rightarrow> tensor \<Rightarrow> tensor \<Rightarrow> ('w model, fl) m" where
  "backward_D_basic env n netD real_batch fake_batch =
     bnd (call_D env n netD real_batch) (\<lambda>pred_real.
     thn (train_attr CriterionGAN) (
     bnd (lift (criterionGAN env pred_real True)) (\<lambda>loss_D_real.
     bnd (call_D env n netD (detach fake_batch)) (\<lambda>pred_fake.
     thn (train_attr CriterionGAN) (
     bnd (lift (criterionGAN env pred_fake False)) (\<lambda>loss_D_fake.
     bnd (ret (fmul (fadd loss_D_real loss_D_fake) (Fin (1 / 2)))) (\<lambda>loss_D.
     thn (emit (Backward loss_D))
         (ret loss_D))))))))"

text \<open>\<^verbatim>\<open>self.fake_X_pool.query(self.fake_X)\<close>.\<close>

definition query :: "'w env \<Rightarrow> pool \<Rightarrow> tname \<Rightarrow> ('w model, tensor) m" where
  "query env p a =
     thn (train_attr (Image_pool p)) (
     bnd (get_tensor a) (\<lambda>x.
     bnd (reads trace) (\<lambda>h.
     thn (emit (Pool_query p x))
         (lift (pool_query env p h x)))))"

definition backward_D_A :: "'w env \<Rightarrow> ('w model, unit) m" where
  "backward_D_A env =
     bnd (query env Pool_B fake_B) (\<lambda>fake_batch.
     bnd (get_net D_A) (\<lambda>netD.
     bnd (get_tensor real_B) (\<lambda>real_batch.
     bnd (backward_D_basic env D_A netD real_batch fake_batch) (\<lambda>l.
     set_loss loss_D_A l))))"

definition backward_D_B :: "'w env \<Rightarrow> ('w model, unit) m" where
  "backward_D_B env =
     bnd (query env Pool_A fake_A) (\<lambda>fake_batch.
     bnd (get_net D_B) (\<lambda>netD.
     bnd (get_tensor real_A) (\<lambda>real_batch.
     bnd (backward_D_basic env D_B netD real_batch fake_batch) (\<lambda>l.
     set_loss loss_D_B l))))"

subsection \<open>\<^verbatim>\<open>backward_G\<close>\<close>

text \<open>\<^verbatim>\<open>self.criterionIdt(self.a, self.b)\<close> and \<^verbatim>\<open>self.criterionCycle(self.a, self.b)\<close>.\<close>

definition criterion_L1 :: "attr \<Rightarrow> tname \<Rightarrow> tname \<Rightarrow> ('w model, fl) m" where
  "criterion_L1 c a b =
     thn (train_attr c) (
     bnd (get_tensor a) (\<lambda>x.
     bnd (get_tensor b) (\<lambda>y.
     lift (L1Loss x y))))"

text \<open>\<^verbatim>\<open>self.criterionGAN(self.netD_X(self.a), True)\<close>.\<close>

definition criterion_GAN_real :: "'w env \<Rightarrow> net_id \<Rightarrow> tname \<Rightarrow> ('w model, fl) m" where
  "criterion_GAN_real env n a =
     thn (train_attr CriterionGAN) (
     bnd (get_net n) (\<lambda>w.
     bnd (get_tensor a) (\<lambda>x.
     bnd (call_D env n w x) (\<lambda>pred.
     lift (criterionGAN env pred True)))))"

text \<open>The identity branch, lines 191 to 206.\<close>

definition identity_losses :: "'w env \<Rightarrow> options \<Rightarrow> ('w model, unit) m" where
  "identity_losses env opts =
     bnd (call_G env G_A real_B) (\<lambda>(i, _).
     thn (set_tensor idt_A i) (
     bnd (criterion_L1 CriterionIdt idt_A real_B) (\<lambda>l.
     thn (set_loss loss_idt_A_t
            (fmul (fmul l (Fin (lambda_B opts))) (Fin (lambda_identity_t opts)))) (
     bnd (call_G env G_B real_A) (\<lambda>(i, _).
     thn (set_tensor idt_B i) (
     bnd (criterion_L1 CriterionIdt idt_B real_A) (\<lambda>l.
     thn (set_loss loss_idt_B_t
            (fmul (fmul l (Fin (lambda_A opts))) (Fin (lambda_identity_t opts)))) (
     bnd (call_G env G_A real_A) (\<lambda>(i, _).
     thn (set_tensor idt_A_s i) (
     bnd (criterion_L1 CriterionIdt idt_A_s real_A) (\<lambda>l.
     thn (set_loss loss_idt_A_s
            (fmul (fmul l (Fin (lambda_A opts))) (Fin (lambda_identity_s opts)))) (
     bnd (call_G env G_B real_B) (\<lambda>(i, _).
     thn (set_tensor idt_B_s i) (
     bnd (criterion_L1 CriterionIdt idt_B_s real_B) (\<lambda>l.
     thn (set_loss loss_idt_B_s
            (fmul (fmul l (Fin (lambda_B opts))) (Fin (lambda_identity_s opts)))) (
     bnd (get_loss loss_idt_A_t) (\<lambda>t.
     bnd (get_loss loss_idt_A_s) (\<lambda>u.
     thn (set_loss loss_idt_A (fadd t u)) (
     bnd (get_loss loss_idt_B_t) (\<lambda>t.
     bnd (get_loss loss_idt_B_s) (\<lambda>u.
     set_loss loss_idt_B (fadd t u))))))))))))))))))))))"

text \<open>Lines 214 to 217: \<^verbatim>\<open>self.x_ = (torch.norm(self.x, dim = 1)).mean(dim=(1,2))\<close>.\<close>

definition set_sample_norms :: "vname \<Rightarrow> tname \<Rightarrow> ('w model, unit) m" where
  "set_sample_norms v a = bnd (get_tensor a) (\<lambda>x. set_vector v (sample_norms x))"

text \<open>Lines 220 to 223: \<^verbatim>\<open>self.x_norm = self.x/self.x_\<close>.\<close>

definition set_normalized :: "tname \<Rightarrow> tname \<Rightarrow> vname \<Rightarrow> ('w model, unit) m" where
  "set_normalized r a v =
     bnd (get_tensor a) (\<lambda>x.
     bnd (get_vector v) (\<lambda>n.
     bnd (lift (normalize x n)) (\<lambda>y.
     set_tensor r y)))"

text \<open>
  Lines 233 and 234:
  \<^verbatim>\<open>(torch.norm(self.a - self.b, dim=1)).mean() * lam * lam_diff\<close>.
\<close>

definition diff_loss :: "tname \<Rightarrow> tname \<Rightarrow> real \<Rightarrow> real \<Rightarrow> ('w model, fl) m" where
  "diff_loss a b lam lam_diff =
     bnd (get_tensor a) (\<lambda>x.
     bnd (get_tensor b) (\<lambda>y.
     bnd (lift (diff_discrepancy x y)) (\<lambda>d.
     ret (fmul (fmul d (Fin lam)) (Fin lam_diff)))))"

text \<open>Line 236: the eight terms, added from left to right.\<close>

definition sum_losses :: "('w model, fl) m" where
  "sum_losses =
     bnd (get_loss loss_G_A) (\<lambda>a.
     bnd (get_loss loss_G_B) (\<lambda>b.
     bnd (get_loss loss_cycle_A) (\<lambda>c.
     bnd (get_loss loss_cycle_B) (\<lambda>d.
     bnd (get_loss loss_idt_A) (\<lambda>e.
     bnd (get_loss loss_idt_B) (\<lambda>f.
     bnd (get_loss loss_diff_A) (\<lambda>g.
     bnd (get_loss loss_diff_B) (\<lambda>h.
     ret (fadd (fadd (fadd (fadd (fadd (fadd (fadd a b) c) d) e) f) g) h)))))))))"

text \<open>Lines 189 to 211: the identity losses, or zero for both.\<close>

definition identity_part :: "'w env \<Rightarrow> options \<Rightarrow> ('w model, unit) m" where
  "identity_part env opts =
     (if 0 < lambda_identity_t opts \<or> 0 < lambda_identity_s opts
      then identity_losses env opts
      else thn (set_loss loss_idt_A (Fin 0)) (set_loss loss_idt_B (Fin 0)))"

text \<open>Lines 213 to 223: the per-sample norms, then the normalised differences.\<close>

definition normalize_diffs :: "('w model, unit) m" where
  "normalize_diffs =
     thn (set_sample_norms real_diff_A_mag real_diff_A) (
     thn (set_sample_norms real_diff_B_mag real_diff_B) (
     thn (set_sample_norms diff_A_mag diff_A) (
     thn (set_sample_norms diff_B_mag diff_B) (
     thn (set_normalized real_diff_A_norm real_diff_A real_diff_A_mag) (
     thn (set_normalized real_diff_B_norm real_diff_B real_diff_B_mag) (
     thn (set_normalized diff_A_norm diff_A diff_A_mag)
         (set_normalized diff_B_norm diff_B diff_B_mag)))))))"

text \<open>Lines 224 to 234: the adversarial, cycle and difference losses.\<close>

definition partial_losses :: "'w env \<Rightarrow> options \<Rightarrow> ('w model, unit) m" where
  "partial_losses env opts =
     bnd (criterion_GAN_real env D_A fake_B) (\<lambda>l.
     thn (set_loss loss_G_A l) (
     bnd (criterion_GAN_real env D_B fake_A) (\<lambda>l.
     thn (set_loss loss_G_B l) (
     bnd (criterion_L1 CriterionCycle rec_A real_A) (\<lambda>l.
     thn (set_loss loss_cycle_A (fmul l (Fin (lambda_A opts)))) (
     bnd (criterion_L1 CriterionCycle rec_B real_B) (\<lambda>l.
     thn (set_loss loss_cycle_B (fmul l (Fin (lambda_B opts)))) (
     bnd (diff_loss diff_A_norm real_diff_A_norm (lambda_A opts) (lambda_diff_s opts)) (\<lambda>l.
     thn (set_loss loss_diff_A l) (
     bnd (diff_loss diff_B_norm real_diff_B_norm (lambda_B opts) (lambda_diff_t opts)) (\<lambda>l.
     set_loss loss_diff_B l)))))))))))"

text \<open>Lines 235 to 237: the combined loss and its back-propagation.\<close>

definition combined_loss_backward :: "('w model, unit) m" where
  "combined_loss_backward =
     bnd sum_losses (\<lambda>l.
     thn (set_loss loss_G l) (
     bnd (get_loss loss_G) (\<lambda>l.
     emit (Backward l))))"

definition backward_G :: "'w env \<Rightarrow> ('w model, unit) m" where
  "backward_G env =
     bnd (reads opt) (\<lambda>opts.
     thn (identity_part env opts) (
     thn normalize_diffs (
     thn (partial_losses env opts)
         combined_loss_backward)))"

subsection \<open>\<^verbatim>\<open>optimize_parameters\<close>\<close>

text \<open>
  Modelled from the spec: \<^verbatim>\<open>BaseModel.set_requires_grad\<close>, which is not in this file,
  switches gradient tracking on the networks it is given. At the call site the list
  \<^verbatim>\<open>[self.netD_A, self.netD_B]\<close> is built first, so both attributes are read.
\<close>

definition set_requires_grad :: "net_id list \<Rightarrow> bool \<Rightarrow> ('w model, unit) m" where
  "set_requires_grad ns b =
     thn (emit (Set_requires_grad ns b))
         (modify (\<lambda>s. s\<lparr>net_requires_grad :=
            (\<lambda>n. if n \<in> set ns then b else net_requires_grad s n)\<rparr>))"

definition set_requires_grad_D :: "bool \<Rightarrow> ('w model, unit) m" where
  "set_requires_grad_D b =
     bnd (get_net D_A) (\<lambda>_.
     bnd (get_net D_B) (\<lambda>_.
     set_requires_grad [D_A, D_B] b))"

definition zero_grad :: "optim \<Rightarrow> ('w model, unit) m" where
  "zero_grad p = thn (train_attr (Optimizer p)) (emit (Zero_grad p))"

text \<open>
  The networks an optimizer owns (lines 112 and 113), and its step: each of its
  networks gets the weights the Adam step leaves, computed from the run so far
  (\<open>stepped\<close>, with the history \<open>h\<close>), and the step then returns or raises as the
  Adam step did. The networks of the other optimizer are out of its reach.
\<close>

fun owned :: "optim \<Rightarrow> net_id \<Rightarrow> bool" where
  "owned Opt_G n = (n = G_A \<or> n = G_B)"
| "owned Opt_D n = (n = D_A \<or> n = D_B)"

definition stepped :: "'w env \<Rightarrow> event list \<Rightarrow> optim \<Rightarrow> (net_id \<Rightarrow> 'w option) \<Rightarrow> net_id \<Rightarrow> 'w option" where
  "stepped env h p ns =
     (\<lambda>n. if owned p n then snd (optimizer_step env h p ns) n else ns n)"

definition step :: "'w env \<Rightarrow> optim \<Rightarrow> ('w model, unit) m" where
  "step env p =
     thn (train_attr (Optimizer p)) (
     bnd (reads trace) (\<lambda>h.
     bnd (reads nets) (\<lambda>ns.
     thn (emit (Step p)) (
     thn (modify (\<lambda>s. s\<lparr>nets := stepped env h p ns\<rparr>))
         (lift (fst (optimizer_step env h p ns)))))))"

definition optimize_parameters :: "'w env \<Rightarrow> ('w model, unit) m" where
  "optimize_parameters env =
     thn (forward env) (
     thn (set_requires_grad_D False) (
     thn (zero_grad Opt_G) (
     thn (backward_G env) (
     thn (step env Opt_G) (
     thn (set_requires_grad_D True) (
     thn (zero_grad Opt_D) (
     thn (backward_D_A env) (
     thn (backward_D_B env)
         (step env Opt_D)))))))))"

text \<open>
  Gradient tracking as line 244 leaves it: disabled on both discriminators, unchanged
  on the generators.
\<close>

definition frozen_D :: "(net_id \<Rightarrow> bool) \<Rightarrow> net_id \<Rightarrow> bool" where
  "frozen_D g = (\<lambda>n. if n \<in> set [D_A, D_B] then False else g n)"

section \<open>Invariants of methods\<close>

text \<open>
  A method keeps an invariant when the object satisfies it after the call, whether
  the call returned or raised.
\<close>

definition keeps :: "('s \<Rightarrow> bool) \<Rightarrow> ('s, 'a) m \<Rightarrow> bool" where
  "keeps I m = (\<forall>s. I s \<longrightarrow> I (snd (m s)))"

text \<open>The trace has grown from \<open>t0\<close> by events that all satisfy \<open>P\<close>.\<close>

definition grows :: "(event \<Rightarrow> bool) \<Rightarrow> event list \<Rightarrow> 'w model \<Rightarrow> bool" where
  "grows P t0 s = (\<exists>evs. trace s = t0 @ evs \<and> list_all P evs)"

fun is_generator_call :: "event \<Rightarrow> bool" where
  "is_generator_call (Call_net n x) = (n = G_A \<or> n = G_B)"
| "is_generator_call _ = False"

fun is_backward :: "event \<Rightarrow> bool" where
  "is_backward (Backward l) = True"
| "is_backward _ = False"

fun is_step :: "event \<Rightarrow> bool" where
  "is_step (Step p) = True"
| "is_step _ = False"

section \<open>The order of operations\<close>

text \<open>An event without the batch or loss it carries.\<close>

datatype kind =
    K_call net_id
  | K_requires_grad "net_id list" bool
  | K_zero_grad optim
  | K_backward
  | K_step optim
  | K_query pool

fun kind_of :: "event \<Rightarrow> kind" where
  "kind_of (Call_net n x) = K_call n"
| "kind_of (Set_requires_grad ns b) = K_requires_grad ns b"
| "kind_of (Zero_grad p) = K_zero_grad p"
| "kind_of (Backward l) = K_backward"
| "kind_of (Step p) = K_step p"
| "kind_of (Pool_query p x) = K_query p"

text \<open>The object has gone from \<open>s\<close> to \<open>s'\<close> by events of the kinds \<open>ks\<close>, in that order.\<close>

definition emitted :: "kind list \<Rightarrow> 'w model \<Rightarrow> 'w model \<Rightarrow> bool" where
  "emitted ks s s' = (\<exists>evs. trace s' = trace s @ evs \<and> map kind_of evs = ks)"

text \<open>The forward pass: four generator evaluations.\<close>

definition forward_ops :: "kind list" where
  "forward_ops = [K_call G_A, K_call G_B, K_call G_B, K_call G_A]"

text \<open>
  The generator loss and its back-propagation: the identity evaluations when the
  identity loss is enabled, the two discriminator evaluations of the adversarial
  terms, one back-propagation.
\<close>

definition identity_ops :: "options \<Rightarrow> kind list" where
  "identity_ops opts =
     (if 0 < lambda_identity_t opts \<or> 0 < lambda_identity_s opts
      then [K_call G_A, K_call G_B, K_call G_A, K_call G_B] else [])"

definition generator_loss_ops :: "options \<Rightarrow> kind list" where
  "generator_loss_ops opts = identity_ops opts @ [K_call D_A, K_call D_B, K_backward]"

text \<open>One discriminator loss and its back-propagation: pool query, two evaluations.\<close>

definition discriminator_loss_ops :: "pool \<Rightarrow> net_id \<Rightarrow> kind list" where
  "discriminator_loss_ops p n = [K_query p, K_call n, K_call n, K_backward]"

definition phase_D_ops :: "kind list" where
  "phase_D_ops =
     [K_requires_grad [D_A, D_B] True, K_zero_grad Opt_D]
     @ discriminator_loss_ops Pool_B D_A @ discriminator_loss_ops Pool_A D_B
     @ [K_step Opt_D]"

text \<open>
  The order the specification states: gradient tracking of the discriminators is
  disabled and the generator gradients are zeroed before the forward pass.
\<close>

definition stated_order :: "options \<Rightarrow> kind list" where
  "stated_order opts =
     [K_requires_grad [D_A, D_B] False, K_zero_grad Opt_G]
     @ forward_ops @ generator_loss_ops opts @ [K_step Opt_G] @ phase_D_ops"

text \<open>The order of lines 242 to 253: the forward pass comes first.\<close>

definition source_order :: "options \<Rightarrow> kind list" where
  "source_order opts =
     forward_ops
     @ [K_requires_grad [D_A, D_B] False, K_zero_grad Opt_G]
     @ generator_loss_ops opts @ [K_step Opt_G] @ phase_D_ops"

section \<open>The discriminator loss as stated\<close>

text \<open>
  Following the specification's words: the discriminator loss is half the sum of the
  adversarial loss of the score of the real batch against the real label and of the
  score of the detached fake batch against the fake label.
\<close>

definition stated_D_loss :: "'w env \<Rightarrow> net_id \<Rightarrow> 'w \<Rightarrow> tensor \<Rightarrow> tensor \<Rightarrow> error + fl" where
  "stated_D_loss env n w real_batch fake_batch =
     (case net_D env n w real_batch of Inl e \<Rightarrow> Inl e | Inr score_real \<Rightarrow>
      case criterionGAN env score_real True of Inl e \<Rightarrow> Inl e | Inr loss_real \<Rightarrow>
      case net_D env n w (detach fake_batch) of Inl e \<Rightarrow> Inl e | Inr score_fake \<Rightarrow>
      case criterionGAN env score_fake False of Inl e \<Rightarrow> Inl e | Inr loss_fake \<Rightarrow>
      Inr (fmul (Fin (1 / 2)) (fadd loss_real loss_fake)))"

text \<open>
  The statements of \<^verbatim>\<open>optimize_parameters\<close> and \<^verbatim>\<open>backward_G\<close> that run before line
  214, where the reference difference maps are first read.
\<close>

definition before_line_214 :: "'w env \<Rightarrow> ('w model, unit) m" where
  "before_line_214 env =
     thn (forward env) (
     thn (set_requires_grad_D False) (
     thn (zero_grad Opt_G) (
     bnd (reads opt) (\<lambda>opts. identity_part env opts))))"


section \<open>Concrete collaborators and inputs\<close>

text \<open>
  Collaborators that never raise: a generator returns its input as translated image
  and as difference map, a discriminator returns its input as score map, the
  adversarial criterion is zero, a pool returns the queried batch, and an optimizer
  step advances a counter that stands for the weights.
\<close>

definition env_ok :: "nat env" where
  "env_ok = \<lparr>define_G = (\<lambda>i j opts. Inr 0), define_D = (\<lambda>i opts. Inr 0),
     summary = (\<lambda>w sz. Inr ()), train_setup = (\<lambda>opts. Inr ()),
     net_G = (\<lambda>n w x. Inr (Tensor True (data x), Tensor True (data x))),
     net_D = (\<lambda>n w x. Inr x),
     criterionGAN = (\<lambda>p b. Inr (Fin 0)),
     pool_query = (\<lambda>p h x. Inr x),
     optimizer_step = (\<lambda>h p ns. (Inr (), (\<lambda>n. map_option Suc (ns n))))\<rparr>"

text \<open>
  Training options with the source-domain identity weight alone switched on, and
  different channel counts.
\<close>

definition opts_source_identity :: options where
  "opts_source_identity =
     \<lparr>isTrain = True, dataset_type = ''remote_sensing_images'', direction = ''AtoB'',
      phase = ''train'', input_nc = 3, output_nc = 1, lambda_A = 10, lambda_B = 10,
      lambda_identity_t = 0, lambda_identity_s = 1 / 2, lambda_diff_s = 1, lambda_diff_t = 1\<rparr>"

text \<open>
  The networks check channel counts: a network built for \<open>i\<close> input channels runs,
  as \<^verbatim>\<open>summary\<close> runs it, only on a batch of \<open>i\<close> channels; its first convolution
  raises on any other batch.
\<close>

definition checks_channels :: "'w env \<Rightarrow> bool" where
  "checks_channels env \<longleftrightarrow>
     (\<forall>i j opts w c h v.
        define_G env i j opts = Inr w \<longrightarrow> summary env w (c, h, v) = Inr () \<longrightarrow> c = i) \<and>
     (\<forall>i opts w c h v.
        define_D env i opts = Inr w \<longrightarrow> summary env w (c, h, v) = Inr () \<longrightarrow> c = i)"

text \<open>
  Collaborators as in \<open>env_ok\<close>, but a network is built as its number of input
  channels, and \<^verbatim>\<open>summary\<close> raises when the batch has another number of channels.
\<close>

definition env_channels :: "nat env" where
  "env_channels =
     env_ok\<lparr>define_G := (\<lambda>i j opts. Inr i), define_D := (\<lambda>i opts. Inr i),
       summary := (\<lambda>w (c, h, v). if c = w then Inr () else Inl (RuntimeError ''channels''))\<rparr>"

text \<open>A batch of one sample, one channel and one pixel.\<close>

definition unit_batch :: tensor where
  "unit_batch = Tensor False [[[[Fin 1]]]]"

text \<open>Training options with both identity weights zero.\<close>

definition opts_no_identity :: options where
  "opts_no_identity =
     \<lparr>isTrain = True, dataset_type = ''remote_sensing_images'', direction = ''AtoB'',
      phase = ''train'', input_nc = 1, output_nc = 1, lambda_A = 10, lambda_B = 10,
      lambda_identity_t = 0, lambda_identity_s = 0, lambda_diff_s = 1, lambda_diff_t = 1\<rparr>"

text \<open>The default weights: target identity one half, source identity zero.\<close>

definition opts_default :: options where
  "opts_default = opts_no_identity\<lparr>lambda_identity_t := 1 / 2\<rparr>"

text \<open>
  A training model whose input has been set and whose forward pass has run, every
  batch being \<open>unit_batch\<close>.
\<close>

definition after_forward :: "options \<Rightarrow> nat model" where
  "after_forward opts =
     (new_model opts (\<lambda>_. Some 0))
       \<lparr>tensors := (\<lambda>_. None)(real_A \<mapsto> unit_batch, real_B \<mapsto> unit_batch,
          real_diff_A \<mapsto> unit_batch, real_diff_B \<mapsto> unit_batch,
          fake_A \<mapsto> unit_batch, fake_B \<mapsto> unit_batch, rec_A \<mapsto> unit_batch,
          rec_B \<mapsto> unit_batch, diff_A \<mapsto> unit_batch, diff_B \<mapsto> unit_batch)\<rparr>"

text \<open>Collaborators as in \<open>env_ok\<close>, but the image pools raise on a query.\<close>

definition env_pool_raises :: "nat env" where
  "env_pool_raises = env_ok\<lparr>pool_query := (\<lambda>p h x. Inl (RuntimeError ''pool''))\<rparr>"

text \<open>A training model whose input has been set, every batch being \<open>unit_batch\<close>.\<close>

definition after_set_input :: "options \<Rightarrow> nat model" where
  "after_set_input opts =
     (new_model opts (\<lambda>_. Some 0))
       \<lparr>tensors := (\<lambda>_. None)(real_A \<mapsto> unit_batch, real_B \<mapsto> unit_batch,
          real_diff_A \<mapsto> unit_batch, real_diff_B \<mapsto> unit_batch)\<rparr>"

text \<open>An input of the \<^verbatim>\<open>common_images\<close> dataset and the options that select it.\<close>

definition opts_common :: options where
  "opts_common = opts_default\<lparr>dataset_type := ''common_images''\<rparr>"

definition input_common :: "string \<rightharpoonup> pyvalue" where
  "input_common =
     [''A'' \<mapsto> VTensor unit_batch, ''B'' \<mapsto> VTensor unit_batch,
      ''A_paths'' \<mapsto> VPaths [''a.png''], ''B_paths'' \<mapsto> VPaths [''b.png'']]"

text \<open>
  A batch of two samples, one channel, one row, two columns: a reference difference
  map, and a generated difference map whose first sample is the first reference
  sample and whose second sample is twice the second reference sample. The same with
  three columns.
\<close>

definition scale_sample :: "real \<Rightarrow> fl list list list \<Rightarrow> fl list list list" where
  "scale_sample k x = map (map (map (fmul (Fin k)))) x"

definition ref_pair :: tensor where
  "ref_pair = Tensor False [[[[Fin 1, Fin 1]]], [[[Fin 1, Fin 1]]]]"

definition diff_pair :: tensor where
  "diff_pair = Tensor True [[[[Fin 1, Fin 1]]], [[[Fin 2, Fin 2]]]]"

definition ref_pair3 :: tensor where
  "ref_pair3 = Tensor False [[[[Fin 1, Fin 1, Fin 1]]], [[[Fin 1, Fin 1, Fin 1]]]]"

definition diff_pair3 :: tensor where
  "diff_pair3 = Tensor True [[[[Fin 1, Fin 1, Fin 1]]], [[[Fin 2, Fin 2, Fin 2]]]]"

text \<open>The model after the forward pass, with given difference maps for domain A.\<close>

definition with_diff_A :: "tensor \<Rightarrow> tensor \<Rightarrow> nat model" where
  "with_diff_A r d =
     (after_forward opts_default)
       \<lparr>tensors := (tensors (after_forward opts_default))(real_diff_A \<mapsto> r, diff_A \<mapsto> d)\<rparr>"




text \<open>Some element of a batch, or of a tensor of three axes, is not finite.\<close>

definition nonfinite1 :: "fl list \<Rightarrow> bool" where
  "nonfinite1 xs = list_ex (\<lambda>e. \<not> finite_fl e) xs"

definition nonfinite2 :: "fl list list \<Rightarrow> bool" where
  "nonfinite2 xs = list_ex nonfinite1 xs"





section \<open>Properties\<close>

subsection \<open>The constructor's channel check\<close>

lemma init_asserts_identity_t:
  assumes "isTrain opts" "0 < lambda_identity_t opts" "input_nc opts \<noteq> output_nc opts"
  shows "\<exists>e. CycleGANModel_init env opts = Inl e"
  using assms by (simp add: CycleGANModel_init_def split: sum.splits)

text \<open>
  Lines 98 and 99 run \<^verbatim>\<open>summary\<close> on \<^verbatim>\<open>netG_A\<close>, built for \<^verbatim>\<open>opt.input_nc\<close> channels, and
  on \<^verbatim>\<open>netD_A\<close>, built for \<^verbatim>\<open>opt.output_nc\<close> channels, each with a batch of 14 channels:
  a training model is constructed only when both counts are 14.
\<close>

lemma init_needs_14_channels:
  assumes "checks_channels env" "isTrain opts" "CycleGANModel_init env opts = Inr m"
  shows "input_nc opts = 14 \<and> output_nc opts = 14"
proof -
  from assms(2,3) obtain gA dA where
    g: "define_G env (input_nc opts) (output_nc opts) opts = Inr gA"
      "summary env gA (14, 256, 256) = Inr ()" and
    d: "define_D env (output_nc opts) opts = Inr dA" "summary env dA (14, 256, 256) = Inr ()"
    by (auto simp: CycleGANModel_init_def split: sum.splits if_splits)
  from assms(1) g have "14 = input_nc opts"
    unfolding checks_channels_def by blast
  moreover from assms(1) d have "14 = output_nc opts"
    unfolding checks_channels_def by blast
  ultimately show ?thesis by simp
qed

text \<open>
  C3. With the identity loss enabled (either identity weight positive) and different
  input and output channel counts, construction of a training model fails, given
  networks that check the channel count of their input. The assertion of line 103 is
  guarded by \<^verbatim>\<open>opt.lambda_identity_t > 0.0\<close> alone; when only the source weight is
  positive it is the \<^verbatim>\<open>summary\<close> calls of lines 98 and 99 that raise.
\<close>

theorem init_rejects_channel_mismatch:
  assumes "checks_channels env" and "isTrain opts"
    and "0 < lambda_identity_t opts \<or> 0 < lambda_identity_s opts"
    and "input_nc opts \<noteq> output_nc opts"
  shows "\<exists>e. CycleGANModel_init env opts = Inl e"
proof (cases "CycleGANModel_init env opts")
  case (Inl e)
  then show ?thesis by blast
next
  case (Inr m)
  from init_needs_14_channels [OF assms(1,2) Inr] assms(4) show ?thesis
    by simp
qed

lemma env_channels_checks: "checks_channels env_channels"
  by (auto simp: checks_channels_def env_channels_def env_ok_def split: if_splits)

theorem init_rejects_channel_mismatch_witness:
  "checks_channels env_channels \<and> isTrain opts_source_identity \<and>
   (0 < lambda_identity_t opts_source_identity \<or> 0 < lambda_identity_s opts_source_identity) \<and>
   input_nc opts_source_identity \<noteq> output_nc opts_source_identity \<and>
   CycleGANModel_init env_channels opts_source_identity = Inl (RuntimeError ''channels'') \<and>
   (\<exists>e. CycleGANModel_init env_channels opts_source_identity = Inl e)"
  using init_rejects_channel_mismatch [of env_channels opts_source_identity]
    env_channels_checks
  by (simp add: CycleGANModel_init_def env_channels_def env_ok_def opts_source_identity_def)

subsection \<open>Rules for statements that may raise\<close>

lemma bnd_Inr:
  "bnd m f s = (Inr y, s') \<longleftrightarrow> (\<exists>x s1. m s = (Inr x, s1) \<and> f x s1 = (Inr y, s'))"
  by (auto simp: bnd_def split: prod.splits sum.splits)

lemma thn_Inr:
  "thn m k s = (Inr y, s') \<longleftrightarrow> (\<exists>s1. m s = (Inr (), s1) \<and> k s1 = (Inr y, s'))"
  by (simp add: thn_def bnd_Inr)

lemma ret_Inr: "ret x s = (Inr y, s') \<longleftrightarrow> y = x \<and> s' = s"
  by (auto simp: ret_def)

lemma lift_Inr: "lift r s = (Inr y, s') \<longleftrightarrow> r = Inr y \<and> s' = s"
  by (auto simp: lift_def)

lemma reads_Inr: "reads f s = (Inr y, s') \<longleftrightarrow> y = f s \<and> s' = s"
  by (auto simp: reads_def)

lemma modify_Inr: "modify f s = (Inr y, s') \<longleftrightarrow> s' = f s"
  by (auto simp: modify_def)

lemma attribute_Inr: "attribute a f s = (Inr y, s') \<longleftrightarrow> f s = Some y \<and> s' = s"
  by (auto simp: attribute_def split: option.splits)

lemmas run_Inr = bnd_Inr thn_Inr ret_Inr lift_Inr reads_Inr modify_Inr attribute_Inr

lemma bnd_reads: "bnd (reads f) g s = g (f s) s"
  by (simp add: bnd_def reads_def)

lemma thn_Inl: "m s = (Inl e, s1) \<Longrightarrow> thn m k s = (Inl e, s1)"
  by (simp add: thn_def bnd_def)

lemma thn_cases:
  obtains (raised) e where "fst (m s) = Inl e" "thn m k s = (Inl e, snd (m s))"
  | (returned) "fst (m s) = Inr ()" "thn m k s = k (snd (m s))"
  by (cases "m s"; cases "fst (m s)") (auto simp: thn_def bnd_def)

subsection \<open>Rules for invariants\<close>

lemma keepsD: "keeps I m \<Longrightarrow> I s \<Longrightarrow> I (snd (m s))"
  by (simp add: keeps_def)

lemma keeps_run: "keeps I m \<Longrightarrow> I s \<Longrightarrow> m s = (r, s') \<Longrightarrow> I s'"
  by (auto simp: keeps_def dest: spec [of _ s])

lemma keeps_ret: "keeps I (ret x)"
  by (simp add: keeps_def ret_def)

lemma keeps_lift: "keeps I (lift r)"
  by (simp add: keeps_def lift_def)

lemma keeps_reads: "keeps I (reads f)"
  by (simp add: keeps_def reads_def)

lemma keeps_attribute: "keeps I (attribute a f)"
  by (simp add: keeps_def attribute_def split: option.splits)

lemma keeps_modify: "(\<And>s. I s \<Longrightarrow> I (f s)) \<Longrightarrow> keeps I (modify f)"
  by (simp add: keeps_def modify_def)

lemma keeps_bnd: "keeps I m \<Longrightarrow> (\<And>x. keeps I (f x)) \<Longrightarrow> keeps I (bnd m f)"
proof (unfold keeps_def, intro allI impI)
  fix s assume m: "\<forall>s. I s \<longrightarrow> I (snd (m s))" and f: "\<And>x. \<forall>s. I s \<longrightarrow> I (snd (f x s))"
    and s: "I s"
  from m s have 1: "I (snd (m s))" by simp
  show "I (snd (bnd m f s))"
  proof (cases "m s")
    case (Pair r s1)
    with 1 have "I s1" by simp
    with f Pair show ?thesis by (cases r) (simp_all add: bnd_def)
  qed
qed

lemma keeps_thn: "keeps I m \<Longrightarrow> keeps I k \<Longrightarrow> keeps I (thn m k)"
  by (simp add: thn_def keeps_bnd)

lemma keeps_if: "keeps I a \<Longrightarrow> keeps I b \<Longrightarrow> keeps I (if c then a else b)"
  by simp

lemma keeps_case_prod: "(\<And>a b. keeps I (f a b)) \<Longrightarrow> keeps I (case p of (a, b) \<Rightarrow> f a b)"
  by (cases p) simp

lemma keeps_get:
  "keeps I (get_tensor a)" "keeps I (get_vector v)" "keeps I (get_loss l)"
  "keeps I (get_net n)" "keeps I (train_attr c)"
  by (simp_all add: get_tensor_def get_vector_def get_loss_def get_net_def train_attr_def
      keeps_attribute)

lemma keeps_set_tensor:
  "(\<And>s. I s \<Longrightarrow> I (s\<lparr>tensors := (tensors s)(a \<mapsto> x)\<rparr>)) \<Longrightarrow> keeps I (set_tensor a x)"
  by (simp add: set_tensor_def keeps_modify)

lemma keeps_set_vector:
  "(\<And>s. I s \<Longrightarrow> I (s\<lparr>vectors := (vectors s)(a \<mapsto> x)\<rparr>)) \<Longrightarrow> keeps I (set_vector a x)"
  by (simp add: set_vector_def keeps_modify)

lemma keeps_set_loss:
  "(\<And>s. I s \<Longrightarrow> I (s\<lparr>losses := (losses s)(a \<mapsto> x)\<rparr>)) \<Longrightarrow> keeps I (set_loss a x)"
  by (simp add: set_loss_def keeps_modify)

lemma keeps_emit:
  "(\<And>s. I s \<Longrightarrow> I (s\<lparr>trace := trace s @ [e]\<rparr>)) \<Longrightarrow> keeps I (emit e)"
  by (simp add: emit_def keeps_modify)

lemmas keeps_intros = keeps_ret keeps_lift keeps_reads keeps_attribute keeps_bnd keeps_thn
  keeps_if keeps_case_prod keeps_get keeps_set_tensor keeps_set_vector keeps_set_loss keeps_emit
  keeps_modify

lemma thn_keeps: "I (snd (m s)) \<Longrightarrow> keeps I k \<Longrightarrow> I (snd (thn m k s))"
  by (cases "m s"; cases "fst (m s)") (auto simp: thn_def bnd_def keeps_def)

lemma grows_refl: "grows P (trace s) s"
  by (simp add: grows_def)

lemma grows_emit: "P e \<Longrightarrow> grows P t0 s \<Longrightarrow> grows P t0 (s\<lparr>trace := trace s @ [e]\<rparr>)"
  by (auto simp: grows_def)

lemma grows_update [simp]:
  "grows P t0 (s\<lparr>tensors := ts\<rparr>) = grows P t0 s"
  "grows P t0 (s\<lparr>vectors := vs\<rparr>) = grows P t0 s"
  "grows P t0 (s\<lparr>losses := ls\<rparr>) = grows P t0 s"
  "grows P t0 (s\<lparr>nets := ns\<rparr>) = grows P t0 s"
  "grows P t0 (s\<lparr>net_requires_grad := rg\<rparr>) = grows P t0 s"
  "grows P t0 (s\<lparr>image_paths := ip\<rparr>) = grows P t0 s"
  by (simp_all add: grows_def)

lemma grows_trans: "grows P t0 s1 \<Longrightarrow> grows P (trace s1) s2 \<Longrightarrow> grows P t0 s2"
  by (auto simp: grows_def)

text \<open>The definitions of the blocks of \<^verbatim>\<open>backward_G\<close> after the identity branch.\<close>

lemmas after_identity_defs = normalize_diffs_def partial_losses_def combined_loss_backward_def
  criterion_L1_def criterion_GAN_real_def call_D_def set_sample_norms_def set_normalized_def
  diff_loss_def sum_losses_def

subsection \<open>The identity branch is skipped when both weights are zero\<close>

lemma after_identity_keeps_losses:
  assumes "l \<in> {loss_idt_A, loss_idt_B}"
  shows "keeps (\<lambda>s. losses s l = v) normalize_diffs"
    "keeps (\<lambda>s. losses s l = v) (partial_losses env opts)"
    "keeps (\<lambda>s. losses s l = v) combined_loss_backward"
  using assms unfolding after_identity_defs
  by (auto intro!: keeps_intros)

lemma after_identity_keeps_idt:
  assumes "a \<in> {idt_A, idt_B, idt_A_s, idt_B_s}"
  shows "keeps (\<lambda>s. tensors s a = v) normalize_diffs"
    "keeps (\<lambda>s. tensors s a = v) (partial_losses env opts)"
    "keeps (\<lambda>s. tensors s a = v) combined_loss_backward"
  using assms unfolding after_identity_defs
  by (auto intro!: keeps_intros)

lemma after_identity_no_generator_call:
  "keeps (grows (\<lambda>e. \<not> is_generator_call e) t0) normalize_diffs"
  "keeps (grows (\<lambda>e. \<not> is_generator_call e) t0) (partial_losses env opts)"
  "keeps (grows (\<lambda>e. \<not> is_generator_call e) t0) combined_loss_backward"
  unfolding after_identity_defs
  by (auto intro!: keeps_intros grows_emit)

lemma after_identity_keeps:
  assumes "keeps I normalize_diffs" "keeps I (partial_losses env opts)"
    "keeps I combined_loss_backward" "I (snd (identity_part env opts s))" "opts = opt s"
  shows "I (snd (backward_G env s))"
  unfolding backward_G_def bnd_reads
  using assms by (auto intro!: thn_keeps keeps_thn)

text \<open>
  C8. With both identity weights zero, \<^verbatim>\<open>backward_G\<close> (however it ends) has set
  \<^verbatim>\<open>loss_idt_A\<close> and \<^verbatim>\<open>loss_idt_B\<close> to zero, has evaluated no generator, and has left
  the attributes \<^verbatim>\<open>idt_A\<close>, \<^verbatim>\<open>idt_B\<close>, \<^verbatim>\<open>idt_A_s\<close>, \<^verbatim>\<open>idt_B_s\<close> as they were.
\<close>

theorem backward_G_skips_identity:
  assumes "lambda_identity_t (opt s) = 0" and "lambda_identity_s (opt s) = 0"
  shows "losses (snd (backward_G env s)) loss_idt_A = Some (Fin 0) \<and>
     losses (snd (backward_G env s)) loss_idt_B = Some (Fin 0) \<and>
     grows (\<lambda>e. \<not> is_generator_call e) (trace s) (snd (backward_G env s)) \<and>
     tensors (snd (backward_G env s)) idt_A = tensors s idt_A \<and>
     tensors (snd (backward_G env s)) idt_B = tensors s idt_B \<and>
     tensors (snd (backward_G env s)) idt_A_s = tensors s idt_A_s \<and>
     tensors (snd (backward_G env s)) idt_B_s = tensors s idt_B_s"
proof -
  let ?s1 = "s\<lparr>losses := (losses s)(loss_idt_A \<mapsto> Fin 0, loss_idt_B \<mapsto> Fin 0)\<rparr>"
  have s1: "snd (identity_part env (opt s) s) = ?s1"
    using assms by (simp add: identity_part_def thn_def bnd_def set_loss_def modify_def)
  have A: "losses (snd (backward_G env s)) loss_idt_A = Some (Fin 0)"
    by (rule after_identity_keeps [OF after_identity_keeps_losses]) (simp_all add: s1)
  have B: "losses (snd (backward_G env s)) loss_idt_B = Some (Fin 0)"
    by (rule after_identity_keeps [OF after_identity_keeps_losses]) (simp_all add: s1)
  have G: "grows (\<lambda>e. \<not> is_generator_call e) (trace s) (snd (backward_G env s))"
    by (rule after_identity_keeps [OF after_identity_no_generator_call])
      (simp_all add: s1 grows_refl)
  have T: "tensors (snd (backward_G env s)) a = tensors s a"
    if "a \<in> {idt_A, idt_B, idt_A_s, idt_B_s}" for a
    by (rule after_identity_keeps [OF after_identity_keeps_idt [OF that]]) (simp_all add: s1)
  from A B G T show ?thesis by simp
qed

theorem backward_G_skips_identity_witness:
  "lambda_identity_t (opt (after_forward opts_no_identity)) = 0 \<and>
   lambda_identity_s (opt (after_forward opts_no_identity)) = 0 \<and>
   losses (snd (backward_G env_ok (after_forward opts_no_identity))) loss_idt_A = Some (Fin 0) \<and>
   tensors (snd (backward_G env_ok (after_forward opts_no_identity))) idt_A = None"
proof -
  have 1: "lambda_identity_t (opt (after_forward opts_no_identity)) = 0"
    and 2: "lambda_identity_s (opt (after_forward opts_no_identity)) = 0"
    by (simp_all add: after_forward_def new_model_def opts_no_identity_def)
  have 3: "tensors (after_forward opts_no_identity) idt_A = None"
    by (simp add: after_forward_def)
  from backward_G_skips_identity [OF 1 2, of env_ok] 1 2 3 show ?thesis by simp
qed

subsection \<open>The blocks of \<^verbatim>\<open>backward_G\<close>\<close>

lemma backward_G_Inr:
  "backward_G env s = (Inr u, s') \<longleftrightarrow>
     (\<exists>s1 s2 s3. identity_part env (opt s) s = (Inr (), s1) \<and>
        normalize_diffs s1 = (Inr (), s2) \<and>
        partial_losses env (opt s) s2 = (Inr (), s3) \<and>
        combined_loss_backward s3 = (Inr (), s'))"
  by (auto simp: backward_G_def run_Inr)

lemmas identity_defs = identity_part_def identity_losses_def call_G_def criterion_L1_def

lemma before_combined_no_backward:
  "keeps (grows (\<lambda>e. \<not> is_backward e) t0) (identity_part env opts)"
  "keeps (grows (\<lambda>e. \<not> is_backward e) t0) normalize_diffs"
  "keeps (grows (\<lambda>e. \<not> is_backward e) t0) (partial_losses env opts)"
  unfolding identity_defs after_identity_defs
  by (auto intro!: keeps_intros grows_emit)

lemma sum_losses_Inr:
  "sum_losses s = (Inr l, s') \<longleftrightarrow>
     (\<exists>a b c d e f g h. losses s loss_G_A = Some a \<and> losses s loss_G_B = Some b \<and>
        losses s loss_cycle_A = Some c \<and> losses s loss_cycle_B = Some d \<and>
        losses s loss_idt_A = Some e \<and> losses s loss_idt_B = Some f \<and>
        losses s loss_diff_A = Some g \<and> losses s loss_diff_B = Some h \<and>
        l = fadd (fadd (fadd (fadd (fadd (fadd (fadd a b) c) d) e) f) g) h \<and> s' = s)"
  by (auto simp: sum_losses_def get_loss_def run_Inr)

lemma combined_loss_backward_Inr:
  "combined_loss_backward s = (Inr u, s') \<longleftrightarrow>
     (\<exists>l. sum_losses s = (Inr l, s) \<and>
        s' = s\<lparr>losses := (losses s)(loss_G \<mapsto> l), trace := trace s @ [Backward l]\<rparr>)"
  by (auto simp: combined_loss_backward_def sum_losses_Inr set_loss_def get_loss_def emit_def
      run_Inr)

text \<open>
  C5. When \<^verbatim>\<open>backward_G\<close> returns, \<^verbatim>\<open>loss_G\<close> is the sum of the eight stored terms
  \<^verbatim>\<open>loss_G_A\<close>, \<^verbatim>\<open>loss_G_B\<close>, \<^verbatim>\<open>loss_cycle_A\<close>, \<^verbatim>\<open>loss_cycle_B\<close>, \<^verbatim>\<open>loss_idt_A\<close>,
  \<^verbatim>\<open>loss_idt_B\<close>, \<^verbatim>\<open>loss_diff_A\<close>, \<^verbatim>\<open>loss_diff_B\<close>, and the call has made exactly one
  back-propagation, its last action, on that sum.
\<close>

theorem backward_G_combined_loss:
  assumes "backward_G env s = (Inr u, s')"
  shows "\<exists>a b c d e f g h pre.
     losses s' loss_G_A = Some a \<and> losses s' loss_G_B = Some b \<and>
     losses s' loss_cycle_A = Some c \<and> losses s' loss_cycle_B = Some d \<and>
     losses s' loss_idt_A = Some e \<and> losses s' loss_idt_B = Some f \<and>
     losses s' loss_diff_A = Some g \<and> losses s' loss_diff_B = Some h \<and>
     losses s' loss_G = Some (fadd (fadd (fadd (fadd (fadd (fadd (fadd a b) c) d) e) f) g) h) \<and>
     trace s' = trace s @ pre @
       [Backward (fadd (fadd (fadd (fadd (fadd (fadd (fadd a b) c) d) e) f) g) h)] \<and>
     list_all (\<lambda>e. \<not> is_backward e) pre"
proof -
  from assms obtain s1 s2 s3 where
    1: "identity_part env (opt s) s = (Inr (), s1)" and
    2: "normalize_diffs s1 = (Inr (), s2)" and
    3: "partial_losses env (opt s) s2 = (Inr (), s3)" and
    4: "combined_loss_backward s3 = (Inr (), s')"
    unfolding backward_G_Inr by blast
  have "grows (\<lambda>e. \<not> is_backward e) (trace s) s1"
    by (rule keeps_run [OF before_combined_no_backward(1) grows_refl 1])
  then have "grows (\<lambda>e. \<not> is_backward e) (trace s) s2"
    by (rule keeps_run [OF before_combined_no_backward(2) _ 2])
  then have "grows (\<lambda>e. \<not> is_backward e) (trace s) s3"
    by (rule keeps_run [OF before_combined_no_backward(3) _ 3])
  then obtain pre where pre: "trace s3 = trace s @ pre" "list_all (\<lambda>e. \<not> is_backward e) pre"
    unfolding grows_def by blast
  from 4 obtain l where l: "sum_losses s3 = (Inr l, s3)"
    and s': "s' = s3\<lparr>losses := (losses s3)(loss_G \<mapsto> l), trace := trace s3 @ [Backward l]\<rparr>"
    unfolding combined_loss_backward_Inr by blast
  from l obtain a b c d e f g h where
    t: "losses s3 loss_G_A = Some a" "losses s3 loss_G_B = Some b"
      "losses s3 loss_cycle_A = Some c" "losses s3 loss_cycle_B = Some d"
      "losses s3 loss_idt_A = Some e" "losses s3 loss_idt_B = Some f"
      "losses s3 loss_diff_A = Some g" "losses s3 loss_diff_B = Some h" and
    l': "l = fadd (fadd (fadd (fadd (fadd (fadd (fadd a b) c) d) e) f) g) h"
    unfolding sum_losses_Inr by blast
  show ?thesis
    apply (rule exI [of _ a], rule exI [of _ b], rule exI [of _ c], rule exI [of _ d])
    apply (rule exI [of _ e], rule exI [of _ f], rule exI [of _ g], rule exI [of _ h])
    apply (rule exI [of _ pre])
    using t pre by (simp add: s' l')
qed

lemma identity_losses_run:
  assumes "identity_losses env opts s = (Inr u, s1)"
    and "nets s G_A = Some wA" "nets s G_B = Some wB"
    and "tensors s real_A = Some rA" "tensors s real_B = Some rB"
    and "net_G env G_A wA rB = Inr (iA, dA)" "L1Loss iA rB = Inr l_At"
    and "net_G env G_B wB rA = Inr (iB, dB)" "L1Loss iB rA = Inr l_Bt"
    and "net_G env G_A wA rA = Inr (iAs, dAs)" "L1Loss iAs rA = Inr l_As"
    and "net_G env G_B wB rB = Inr (iBs, dBs)" "L1Loss iBs rB = Inr l_Bs"
  shows "losses s1 loss_idt_A =
       Some (fadd (fmul (fmul l_At (Fin (lambda_B opts))) (Fin (lambda_identity_t opts)))
                  (fmul (fmul l_As (Fin (lambda_A opts))) (Fin (lambda_identity_s opts))))"
    and "losses s1 loss_idt_B =
       Some (fadd (fmul (fmul l_Bt (Fin (lambda_A opts))) (Fin (lambda_identity_t opts)))
                  (fmul (fmul l_Bs (Fin (lambda_B opts))) (Fin (lambda_identity_s opts))))"
  using assms
  by (clarsimp simp: identity_losses_def call_G_def criterion_L1_def get_net_def get_tensor_def
      train_attr_def emit_def set_tensor_def set_loss_def get_loss_def run_Inr)+

text \<open>
  C6. With the identity loss enabled, where \<open>iA\<close> is \<^verbatim>\<open>G_A(real_B)\<close>, \<open>iAs\<close> is
  \<^verbatim>\<open>G_A(real_A)\<close>, \<open>iB\<close> is \<^verbatim>\<open>G_B(real_A)\<close> and \<open>iBs\<close> is \<^verbatim>\<open>G_B(real_B)\<close>, a call of
  \<^verbatim>\<open>backward_G\<close> that returns has stored
  \<^verbatim>\<open>loss_idt_A = L1(iA, real_B) * lambda_B * lambda_identity_t
      + L1(iAs, real_A) * lambda_A * lambda_identity_s\<close> and
  \<^verbatim>\<open>loss_idt_B = L1(iB, real_A) * lambda_A * lambda_identity_t
      + L1(iBs, real_B) * lambda_B * lambda_identity_s\<close>.
\<close>

theorem backward_G_identity_losses:
  assumes "backward_G env s = (Inr u, s')"
    and "0 < lambda_identity_t (opt s) \<or> 0 < lambda_identity_s (opt s)"
    and "nets s G_A = Some wA" "nets s G_B = Some wB"
    and "tensors s real_A = Some rA" "tensors s real_B = Some rB"
    and "net_G env G_A wA rB = Inr (iA, dA)" "L1Loss iA rB = Inr l_At"
    and "net_G env G_B wB rA = Inr (iB, dB)" "L1Loss iB rA = Inr l_Bt"
    and "net_G env G_A wA rA = Inr (iAs, dAs)" "L1Loss iAs rA = Inr l_As"
    and "net_G env G_B wB rB = Inr (iBs, dBs)" "L1Loss iBs rB = Inr l_Bs"
  shows "losses s' loss_idt_A =
       Some (fadd (fmul (fmul l_At (Fin (lambda_B (opt s)))) (Fin (lambda_identity_t (opt s))))
                  (fmul (fmul l_As (Fin (lambda_A (opt s)))) (Fin (lambda_identity_s (opt s))))) \<and>
     losses s' loss_idt_B =
       Some (fadd (fmul (fmul l_Bt (Fin (lambda_A (opt s)))) (Fin (lambda_identity_t (opt s))))
                  (fmul (fmul l_Bs (Fin (lambda_B (opt s)))) (Fin (lambda_identity_s (opt s)))))"
proof -
  from assms(1) obtain s1 s2 s3 where
    1: "identity_part env (opt s) s = (Inr (), s1)" and
    2: "normalize_diffs s1 = (Inr (), s2)" and
    3: "partial_losses env (opt s) s2 = (Inr (), s3)" and
    4: "combined_loss_backward s3 = (Inr (), s')"
    unfolding backward_G_Inr by blast
  from 1 assms(2) have run: "identity_losses env (opt s) s = (Inr (), s1)"
    by (simp add: identity_part_def)
  note L = identity_losses_run [OF run assms(3-)]
  have keep: "losses s' l = losses s1 l" if "l \<in> {loss_idt_A, loss_idt_B}" for l
  proof -
    have "losses s2 l = losses s1 l"
      by (rule keeps_run [OF after_identity_keeps_losses(1) [OF that] refl 2])
    then have "losses s3 l = losses s1 l"
      by (rule keeps_run [OF after_identity_keeps_losses(2) [OF that] _ 3])
    then show ?thesis
      by (rule keeps_run [OF after_identity_keeps_losses(3) [OF that] _ 4])
  qed
  from L keep show ?thesis by simp
qed

subsection \<open>Concrete runs\<close>

lemmas statement_defs = bnd_def thn_def ret_def lift_def reads_def modify_def attribute_def
  emit_def get_tensor_def set_tensor_def get_vector_def set_vector_def get_loss_def set_loss_def
  get_net_def train_attr_def

lemmas tensor_defs = L1Loss_def sub44_def bzip_def fsub_def mean4_def mean3_def fmean_def
  fsum_def fsq_def sample_norms_def norm_dim1_def norm_sample_def mean_dim12_def normalize_def
  div41_def diff_discrepancy_def detach_def

lemmas backward_G_defs = backward_G_def identity_part_def identity_losses_def call_G_def
  criterion_L1_def criterion_GAN_real_def call_D_def normalize_diffs_def partial_losses_def
  combined_loss_backward_def set_sample_norms_def set_normalized_def diff_loss_def sum_losses_def

lemma backward_G_default_returns:
  "fst (backward_G env_ok (after_forward opts_default)) = Inr ()"
  by (simp add: backward_G_defs statement_defs tensor_defs env_ok_def after_forward_def
      new_model_def opts_default_def opts_no_identity_def unit_batch_def)

theorem backward_G_combined_loss_witness:
  "backward_G env_ok (after_forward opts_default) =
     (Inr (), snd (backward_G env_ok (after_forward opts_default))) \<and>
   (\<exists>a b c d e f g h pre.
     losses (snd (backward_G env_ok (after_forward opts_default))) loss_G_A = Some a \<and>
     losses (snd (backward_G env_ok (after_forward opts_default))) loss_G_B = Some b \<and>
     losses (snd (backward_G env_ok (after_forward opts_default))) loss_cycle_A = Some c \<and>
     losses (snd (backward_G env_ok (after_forward opts_default))) loss_cycle_B = Some d \<and>
     losses (snd (backward_G env_ok (after_forward opts_default))) loss_idt_A = Some e \<and>
     losses (snd (backward_G env_ok (after_forward opts_default))) loss_idt_B = Some f \<and>
     losses (snd (backward_G env_ok (after_forward opts_default))) loss_diff_A = Some g \<and>
     losses (snd (backward_G env_ok (after_forward opts_default))) loss_diff_B = Some h \<and>
     losses (snd (backward_G env_ok (after_forward opts_default))) loss_G =
       Some (fadd (fadd (fadd (fadd (fadd (fadd (fadd a b) c) d) e) f) g) h) \<and>
     trace (snd (backward_G env_ok (after_forward opts_default))) =
       trace (after_forward opts_default) @ pre @
       [Backward (fadd (fadd (fadd (fadd (fadd (fadd (fadd a b) c) d) e) f) g) h)] \<and>
     list_all (\<lambda>e. \<not> is_backward e) pre)"
proof -
  have run: "backward_G env_ok (after_forward opts_default) =
      (Inr (), snd (backward_G env_ok (after_forward opts_default)))"
    using backward_G_default_returns by (simp add: prod_eq_iff)
  from run backward_G_combined_loss [OF run] show ?thesis by (rule conjI)
qed

theorem backward_G_identity_losses_witness:
  "backward_G env_ok (after_forward opts_default) =
     (Inr (), snd (backward_G env_ok (after_forward opts_default))) \<and>
   (0 < lambda_identity_t (opt (after_forward opts_default)) \<or>
    0 < lambda_identity_s (opt (after_forward opts_default))) \<and>
   nets (after_forward opts_default) G_A = Some 0 \<and>
   nets (after_forward opts_default) G_B = Some 0 \<and>
   tensors (after_forward opts_default) real_A = Some unit_batch \<and>
   tensors (after_forward opts_default) real_B = Some unit_batch \<and>
   net_G env_ok G_A 0 unit_batch = Inr (Tensor True [[[[Fin 1]]]], Tensor True [[[[Fin 1]]]]) \<and>
   net_G env_ok G_B 0 unit_batch = Inr (Tensor True [[[[Fin 1]]]], Tensor True [[[[Fin 1]]]]) \<and>
   L1Loss (Tensor True [[[[Fin 1]]]]) unit_batch = Inr (Fin 0) \<and>
   losses (snd (backward_G env_ok (after_forward opts_default))) loss_idt_A = Some (Fin 0) \<and>
   losses (snd (backward_G env_ok (after_forward opts_default))) loss_idt_B = Some (Fin 0)"
proof -
  have run: "backward_G env_ok (after_forward opts_default) =
      (Inr (), snd (backward_G env_ok (after_forward opts_default)))"
    using backward_G_default_returns by (simp add: prod_eq_iff)
  have en: "0 < lambda_identity_t (opt (after_forward opts_default)) \<or>
      0 < lambda_identity_s (opt (after_forward opts_default))"
    by (simp add: after_forward_def new_model_def opts_default_def)
  have n: "nets (after_forward opts_default) G_A = Some 0"
    "nets (after_forward opts_default) G_B = Some 0"
    by (simp_all add: after_forward_def new_model_def)
  have t: "tensors (after_forward opts_default) real_A = Some unit_batch"
    "tensors (after_forward opts_default) real_B = Some unit_batch"
    by (simp_all add: after_forward_def)
  have g: "net_G env_ok G_A 0 unit_batch =
      Inr (Tensor True [[[[Fin 1]]]], Tensor True [[[[Fin 1]]]])"
    "net_G env_ok G_B 0 unit_batch =
      Inr (Tensor True [[[[Fin 1]]]], Tensor True [[[[Fin 1]]]])"
    by (simp_all add: env_ok_def unit_batch_def)
  have l: "L1Loss (Tensor True [[[[Fin 1]]]]) unit_batch = Inr (Fin 0)"
    by (simp add: tensor_defs unit_batch_def)
  have o: "lambda_A (opt (after_forward opts_default)) = 10"
    "lambda_B (opt (after_forward opts_default)) = 10"
    "lambda_identity_t (opt (after_forward opts_default)) = 1 / 2"
    "lambda_identity_s (opt (after_forward opts_default)) = 0"
    by (simp_all add: after_forward_def new_model_def opts_default_def opts_no_identity_def)
  from backward_G_identity_losses
    [OF run en n t g(1) l g(2) l g(1) l g(2) l]
  show ?thesis using run en n t g l by (simp add: o)
qed

subsection \<open>The statements of \<^verbatim>\<open>optimize_parameters\<close>\<close>

lemma optimize_parameters_Inr:
  "optimize_parameters env s = (Inr u, s') \<longleftrightarrow>
     (\<exists>s1 s2 s3 s4 s5 s6 s7 s8 s9.
        forward env s = (Inr (), s1) \<and> set_requires_grad_D False s1 = (Inr (), s2) \<and>
        zero_grad Opt_G s2 = (Inr (), s3) \<and> backward_G env s3 = (Inr (), s4) \<and>
        step env Opt_G s4 = (Inr (), s5) \<and> set_requires_grad_D True s5 = (Inr (), s6) \<and>
        zero_grad Opt_D s6 = (Inr (), s7) \<and> backward_D_A env s7 = (Inr (), s8) \<and>
        backward_D_B env s8 = (Inr (), s9) \<and> step env Opt_D s9 = (Inr (), s'))"
  by (simp add: optimize_parameters_def thn_Inr)

lemma call_G_Inr:
  "call_G env n a s = (Inr y, s') \<longleftrightarrow>
     (\<exists>w x. nets s n = Some w \<and> tensors s a = Some x \<and> net_G env n w x = Inr y \<and>
        s' = s\<lparr>trace := trace s @ [Call_net n x]\<rparr>)"
  by (auto simp: call_G_def get_net_def get_tensor_def emit_def run_Inr)

lemma set_requires_grad_D_Inr:
  "set_requires_grad_D b s = (Inr u, s') \<longleftrightarrow>
     (nets s D_A \<noteq> None \<and> nets s D_B \<noteq> None \<and>
      s' = s\<lparr>trace := trace s @ [Set_requires_grad [D_A, D_B] b],
             net_requires_grad :=
               (\<lambda>n. if n \<in> set [D_A, D_B] then b else net_requires_grad s n)\<rparr>)"
  by (auto simp: set_requires_grad_D_def set_requires_grad_def get_net_def emit_def run_Inr)

lemma zero_grad_Inr:
  "zero_grad p s = (Inr u, s') \<longleftrightarrow>
     (train_attrs s \<and> s' = s\<lparr>trace := trace s @ [Zero_grad p]\<rparr>)"
  by (auto simp: zero_grad_def train_attr_def emit_def run_Inr)

lemma step_Inr:
  "step env p s = (Inr u, s') \<longleftrightarrow>
     (train_attrs s \<and> fst (optimizer_step env (trace s) p (nets s)) = Inr () \<and>
      s' = s\<lparr>trace := trace s @ [Step p], nets := stepped env (trace s) p (nets s)\<rparr>)"
  by (auto simp: step_def train_attr_def emit_def run_Inr)

lemma fmul_commute: "fmul a b = fmul b a"
  by (cases a; cases b) (simp_all add: mult.commute signed_inf_def)

lemma backward_D_basic_Inr:
  "backward_D_basic env n w x y s = (Inr l, s') \<longleftrightarrow>
     (train_attrs s \<and> stated_D_loss env n w x y = Inr l \<and>
      s' = s\<lparr>trace := trace s @ [Call_net n x, Call_net n (detach y), Backward l]\<rparr>)"
  by (auto simp: backward_D_basic_def stated_D_loss_def call_D_def train_attr_def emit_def
      run_Inr fmul_commute [of "Fin (1 / 2)"] split: sum.splits)

lemma query_Inr:
  "query env p a s = (Inr q, s') \<longleftrightarrow>
     (\<exists>x. train_attrs s \<and> tensors s a = Some x \<and> pool_query env p (trace s) x = Inr q \<and>
        s' = s\<lparr>trace := trace s @ [Pool_query p x]\<rparr>)"
  by (auto simp: query_def train_attr_def get_tensor_def emit_def run_Inr)

lemma backward_D_A_Inr:
  "backward_D_A env s = (Inr u, s') \<longleftrightarrow>
     (\<exists>f q w r l. train_attrs s \<and> tensors s fake_B = Some f \<and>
        pool_query env Pool_B (trace s) f = Inr q \<and> nets s D_A = Some w \<and>
        tensors s real_B = Some r \<and> stated_D_loss env D_A w r q = Inr l \<and>
        s' = s\<lparr>trace := trace s @
                 [Pool_query Pool_B f, Call_net D_A r, Call_net D_A (detach q), Backward l],
               losses := (losses s)(loss_D_A \<mapsto> l)\<rparr>)"
  by (auto simp: backward_D_A_def query_Inr backward_D_basic_Inr get_net_def get_tensor_def
      set_loss_def run_Inr)

lemma backward_D_B_Inr:
  "backward_D_B env s = (Inr u, s') \<longleftrightarrow>
     (\<exists>f q w r l. train_attrs s \<and> tensors s fake_A = Some f \<and>
        pool_query env Pool_A (trace s) f = Inr q \<and> nets s D_B = Some w \<and>
        tensors s real_A = Some r \<and> stated_D_loss env D_B w r q = Inr l \<and>
        s' = s\<lparr>trace := trace s @
                 [Pool_query Pool_A f, Call_net D_B r, Call_net D_B (detach q), Backward l],
               losses := (losses s)(loss_D_B \<mapsto> l)\<rparr>)"
  by (auto simp: backward_D_B_def query_Inr backward_D_basic_Inr get_net_def get_tensor_def
      set_loss_def run_Inr)

subsection \<open>The kinds of events each statement emits\<close>

lemma emitted_refl: "emitted [] s s"
  by (simp add: emitted_def)

lemma emitted_trans: "emitted ks s s1 \<Longrightarrow> emitted ks' s1 s2 \<Longrightarrow> emitted (ks @ ks') s s2"
  by (auto simp: emitted_def)

lemma emitted_trace: "trace s' = trace s @ evs \<Longrightarrow> map kind_of evs = ks \<Longrightarrow> emitted ks s s'"
  by (auto simp: emitted_def)

lemma emitted_forward:
  assumes "forward env s = (Inr u, s')"
  shows "emitted forward_ops s s'"
  using assms
  by (clarsimp simp: forward_def call_G_Inr set_tensor_def run_Inr emitted_def forward_ops_def)

lemma emitted_identity_part:
  assumes "identity_part env opts s = (Inr u, s')"
  shows "emitted (identity_ops opts) s s'"
  using assms
  by (clarsimp simp: identity_part_def identity_losses_def call_G_Inr criterion_L1_def
      get_tensor_def train_attr_def set_tensor_def set_loss_def get_loss_def run_Inr
      emitted_def identity_ops_def split: if_splits)

lemma normalize_diffs_trace: "keeps (\<lambda>s. trace s = t) normalize_diffs"
  unfolding after_identity_defs by (auto intro!: keeps_intros)

lemma emitted_partial_losses:
  assumes "partial_losses env opts s = (Inr u, s')"
  shows "emitted [K_call D_A, K_call D_B] s s'"
  using assms
  by (clarsimp simp: partial_losses_def criterion_GAN_real_def call_D_def criterion_L1_def
      diff_loss_def get_net_def get_tensor_def train_attr_def emit_def set_loss_def run_Inr
      emitted_def)

lemma emitted_backward_G:
  assumes "backward_G env s = (Inr u, s')"
  shows "emitted (generator_loss_ops (opt s)) s s'"
proof -
  from assms obtain s1 s2 s3 where
    1: "identity_part env (opt s) s = (Inr (), s1)" and
    2: "normalize_diffs s1 = (Inr (), s2)" and
    3: "partial_losses env (opt s) s2 = (Inr (), s3)" and
    4: "combined_loss_backward s3 = (Inr (), s')"
    unfolding backward_G_Inr by blast
  have "trace s2 = trace s1"
    by (rule keeps_run [OF normalize_diffs_trace refl 2])
  then have e2: "emitted [] s1 s2"
    by (simp add: emitted_def)
  from 4 have e4: "emitted [K_backward] s3 s'"
    by (auto simp: combined_loss_backward_Inr emitted_def)
  from emitted_trans [OF emitted_trans [OF emitted_trans
        [OF emitted_identity_part [OF 1] e2] emitted_partial_losses [OF 3]] e4]
  show ?thesis by (simp add: generator_loss_ops_def)
qed

text \<open>
  C2 (as amended). In every call of \<^verbatim>\<open>optimize_parameters\<close> that returns, the operations
  occur in the order of the source: the forward pass first, then gradient tracking
  of both discriminators is disabled, the generator optimizer's gradients are zeroed,
  the generator loss is computed and back-propagated, the generator optimizer steps;
  then gradient tracking of the discriminators is enabled again, the discriminator
  optimizer's gradients are zeroed, the loss of \<^verbatim>\<open>D_A\<close> and then that of \<^verbatim>\<open>D_B\<close> is
  computed and back-propagated, and the discriminator optimizer steps.
\<close>

theorem optimize_parameters_order:
  assumes "optimize_parameters env s = (Inr u, s')"
  shows "emitted (source_order (opt s)) s s'"
proof -
  from assms obtain s1 s2 s3 s4 s5 s6 s7 s8 s9 where
    r: "forward env s = (Inr (), s1)" "set_requires_grad_D False s1 = (Inr (), s2)"
      "zero_grad Opt_G s2 = (Inr (), s3)" "backward_G env s3 = (Inr (), s4)"
      "step env Opt_G s4 = (Inr (), s5)" "set_requires_grad_D True s5 = (Inr (), s6)"
      "zero_grad Opt_D s6 = (Inr (), s7)" "backward_D_A env s7 = (Inr (), s8)"
      "backward_D_B env s8 = (Inr (), s9)" "step env Opt_D s9 = (Inr (), s')"
    unfolding optimize_parameters_Inr by blast
  have o: "opt s3 = opt s"
    using r(1-3)
    by (clarsimp simp: forward_def call_G_Inr set_tensor_def run_Inr set_requires_grad_D_Inr
        zero_grad_Inr)
  have e1: "emitted forward_ops s s1"
    by (rule emitted_forward [OF r(1)])
  have e2: "emitted [K_requires_grad [D_A, D_B] False] s1 s2"
    using r(2) by (auto simp: set_requires_grad_D_Inr emitted_def)
  have e3: "emitted [K_zero_grad Opt_G] s2 s3"
    using r(3) by (auto simp: zero_grad_Inr emitted_def)
  have e4: "emitted (generator_loss_ops (opt s)) s3 s4"
    using emitted_backward_G [OF r(4)] by (simp add: o)
  have e5: "emitted [K_step Opt_G] s4 s5"
    using r(5) by (auto simp: step_Inr emitted_def)
  have e6: "emitted [K_requires_grad [D_A, D_B] True] s5 s6"
    using r(6) by (auto simp: set_requires_grad_D_Inr emitted_def)
  have e7: "emitted [K_zero_grad Opt_D] s6 s7"
    using r(7) by (auto simp: zero_grad_Inr emitted_def)
  have e8: "emitted (discriminator_loss_ops Pool_B D_A) s7 s8"
    using r(8) by (auto simp: backward_D_A_Inr emitted_def discriminator_loss_ops_def)
  have e9: "emitted (discriminator_loss_ops Pool_A D_B) s8 s9"
    using r(9) by (auto simp: backward_D_B_Inr emitted_def discriminator_loss_ops_def)
  have e10: "emitted [K_step Opt_D] s9 s'"
    using r(10) by (auto simp: step_Inr emitted_def)
  from emitted_trans [OF emitted_trans [OF emitted_trans [OF emitted_trans [OF emitted_trans
        [OF emitted_trans [OF emitted_trans [OF emitted_trans [OF emitted_trans
        [OF e1 e2] e3] e4] e5] e6] e7] e8] e9] e10]
  show ?thesis by (simp add: source_order_def phase_D_ops_def)
qed

subsection \<open>A complete iteration on concrete collaborators\<close>

lemmas iteration_defs = optimize_parameters_def forward_def backward_D_basic_def query_def
  backward_D_A_def backward_D_B_def set_requires_grad_def set_requires_grad_D_def zero_grad_def
  step_def stepped_def

lemmas default_run_defs = iteration_defs backward_G_defs statement_defs tensor_defs
  after_set_input_def new_model_def opts_default_def opts_no_identity_def unit_batch_def

lemma default_run:
  "fst (optimize_parameters env_ok (after_set_input opts_default)) = Inr ()"
  "trace (snd (optimize_parameters env_ok (after_set_input opts_default))) =
     [Call_net G_A (Tensor False [[[[Fin 1]]]]), Call_net G_B (Tensor True [[[[Fin 1]]]]),
      Call_net G_B (Tensor False [[[[Fin 1]]]]), Call_net G_A (Tensor True [[[[Fin 1]]]]),
      Set_requires_grad [D_A, D_B] False, Zero_grad Opt_G,
      Call_net G_A (Tensor False [[[[Fin 1]]]]), Call_net G_B (Tensor False [[[[Fin 1]]]]),
      Call_net G_A (Tensor False [[[[Fin 1]]]]), Call_net G_B (Tensor False [[[[Fin 1]]]]),
      Call_net D_A (Tensor True [[[[Fin 1]]]]), Call_net D_B (Tensor True [[[[Fin 1]]]]),
      Backward (Fin 0), Step Opt_G, Set_requires_grad [D_A, D_B] True, Zero_grad Opt_D,
      Pool_query Pool_B (Tensor True [[[[Fin 1]]]]), Call_net D_A (Tensor False [[[[Fin 1]]]]),
      Call_net D_A (Tensor False [[[[Fin 1]]]]), Backward (Fin 0),
      Pool_query Pool_A (Tensor True [[[[Fin 1]]]]), Call_net D_B (Tensor False [[[[Fin 1]]]]),
      Call_net D_B (Tensor False [[[[Fin 1]]]]), Backward (Fin 0), Step Opt_D]"
  by (simp_all add: default_run_defs env_ok_def)

lemma default_run_returns:
  "optimize_parameters env_ok (after_set_input opts_default) =
     (Inr (), snd (optimize_parameters env_ok (after_set_input opts_default)))"
  using default_run(1) by (simp add: prod_eq_iff)

theorem optimize_parameters_order_witness:
  "optimize_parameters env_ok (after_set_input opts_default) =
     (Inr (), snd (optimize_parameters env_ok (after_set_input opts_default))) \<and>
   emitted (source_order (opt (after_set_input opts_default)))
     (after_set_input opts_default)
     (snd (optimize_parameters env_ok (after_set_input opts_default)))"
  using default_run_returns optimize_parameters_order [OF default_run_returns] by (rule conjI)

text \<open>
  C2 as stated fails: on the run above the forward pass comes before gradient
  tracking is disabled, so the events do not follow the stated order.
\<close>

theorem stated_order_counterexample:
  "fst (optimize_parameters env_ok (after_set_input opts_default)) = Inr () \<and>
   \<not> emitted (stated_order (opt (after_set_input opts_default)))
     (after_set_input opts_default)
     (snd (optimize_parameters env_ok (after_set_input opts_default)))"
proof -
  have t0: "trace (after_set_input opts_default) = []"
    by (simp add: after_set_input_def new_model_def)
  have o: "lambda_identity_t (opt (after_set_input opts_default)) = 1 / 2"
    by (simp add: after_set_input_def new_model_def opts_default_def)
  show ?thesis
    by (simp add: default_run emitted_def t0 stated_order_def forward_ops_def
        generator_loss_ops_def identity_ops_def phase_D_ops_def discriminator_loss_ops_def o)
qed

subsection \<open>Which networks an iteration updates\<close>

lemmas forward_defs = forward_def call_G_def

lemmas discriminator_defs = backward_D_A_def backward_D_B_def backward_D_basic_def query_def
  call_D_def

text \<open>The networks are \<open>N\<close> and the trace has grown from \<open>t0\<close> without an optimizer step.\<close>

lemma no_step_keeps:
  "keeps (\<lambda>s. nets s = N \<and> grows (\<lambda>e. \<not> is_step e) t0 s) (forward env)"
  "keeps (\<lambda>s. nets s = N \<and> grows (\<lambda>e. \<not> is_step e) t0 s) (set_requires_grad_D b)"
  "keeps (\<lambda>s. nets s = N \<and> grows (\<lambda>e. \<not> is_step e) t0 s) (zero_grad p)"
  "keeps (\<lambda>s. nets s = N \<and> grows (\<lambda>e. \<not> is_step e) t0 s) (backward_G env)"
  "keeps (\<lambda>s. nets s = N \<and> grows (\<lambda>e. \<not> is_step e) t0 s) (backward_D_A env)"
  "keeps (\<lambda>s. nets s = N \<and> grows (\<lambda>e. \<not> is_step e) t0 s) (backward_D_B env)"
  unfolding forward_defs set_requires_grad_D_def set_requires_grad_def zero_grad_def
    backward_G_def identity_defs after_identity_defs discriminator_defs
  by (auto intro!: keeps_intros grows_emit)

lemma thn_keepsI:
  assumes "I s" "keeps I m" "\<And>e s1. I s1 \<Longrightarrow> Q (Inl e, s1)" "\<And>s1. I s1 \<Longrightarrow> Q (k s1)"
  shows "Q (thn m k s)"
proof (cases rule: thn_cases [of m s k])
  case (raised e)
  with keepsD [OF assms(2,1)] assms(3) show ?thesis by simp
next
  case returned
  with keepsD [OF assms(2,1)] assms(4) show ?thesis by simp
qed

text \<open>
  The statements before the generator optimizer's step leave gradient tracking as it
  was, or disabled on the discriminators.
\<close>

lemma before_step_keeps:
  "keeps (\<lambda>s. nets s = N \<and> grows (\<lambda>e. \<not> is_step e) t0 s \<and>
      (net_requires_grad s = g \<or> net_requires_grad s = frozen_D g)) (forward env)"
  "keeps (\<lambda>s. nets s = N \<and> grows (\<lambda>e. \<not> is_step e) t0 s \<and>
      (net_requires_grad s = g \<or> net_requires_grad s = frozen_D g)) (set_requires_grad_D False)"
  "keeps (\<lambda>s. nets s = N \<and> grows (\<lambda>e. \<not> is_step e) t0 s \<and>
      (net_requires_grad s = g \<or> net_requires_grad s = frozen_D g)) (zero_grad p)"
  "keeps (\<lambda>s. nets s = N \<and> grows (\<lambda>e. \<not> is_step e) t0 s \<and>
      (net_requires_grad s = g \<or> net_requires_grad s = frozen_D g)) (backward_G env)"
  unfolding forward_defs set_requires_grad_D_def set_requires_grad_def zero_grad_def
    backward_G_def identity_defs after_identity_defs
  by (auto intro!: keeps_intros grows_emit simp: frozen_D_def)

lemma step_cases:
  obtains (raised) e where "step env p s = (Inl e, s)"
  | (interrupted) e where "fst (optimizer_step env (trace s) p (nets s)) = Inl e"
      "step env p s =
        (Inl e, s\<lparr>trace := trace s @ [Step p], nets := stepped env (trace s) p (nets s)\<rparr>)"
  | (returned) "fst (optimizer_step env (trace s) p (nets s)) = Inr ()"
      "step env p s =
        (Inr (), s\<lparr>trace := trace s @ [Step p], nets := stepped env (trace s) p (nets s)\<rparr>)"
  by (cases "train_attrs s"; cases "fst (optimizer_step env (trace s) p (nets s))")
    (auto simp: step_def statement_defs)

text \<open>What the discriminator phase, lines 249 to 253, leaves behind.\<close>

lemma phase_D_nets:
  fixes env :: "'w env" and s :: "'w model"
  defines "r \<equiv> thn (set_requires_grad_D True) (thn (zero_grad Opt_D) (thn (backward_D_A env)
     (thn (backward_D_B env) (step env Opt_D)))) s"
  shows "(\<exists>e. fst r = Inl e \<and> nets (snd r) = nets s) \<or>
         (\<exists>e h. fst r = Inl e \<and> fst (optimizer_step env h Opt_D (nets s)) = Inl e \<and>
            nets (snd r) = stepped env h Opt_D (nets s)) \<or>
         (\<exists>h. fst r = Inr () \<and> fst (optimizer_step env h Opt_D (nets s)) = Inr () \<and>
            nets (snd r) = stepped env h Opt_D (nets s))"
proof -
  let ?I = "\<lambda>t. nets t = nets s \<and> grows (\<lambda>e. \<not> is_step e) (trace s) t"
  define Q :: "(error + unit) \<times> 'w model \<Rightarrow> bool" where
    "Q = (\<lambda>r. (\<exists>e. fst r = Inl e \<and> nets (snd r) = nets s) \<or>
         (\<exists>e h. fst r = Inl e \<and> fst (optimizer_step env h Opt_D (nets s)) = Inl e \<and>
            nets (snd r) = stepped env h Opt_D (nets s)) \<or>
         (\<exists>h. fst r = Inr () \<and> fst (optimizer_step env h Opt_D (nets s)) = Inr () \<and>
            nets (snd r) = stepped env h Opt_D (nets s)))"
  have I: "?I s" by (simp add: grows_refl)
  have raised: "Q (Inl e, t)" if "?I t" for e t
    using that by (simp add: Q_def)
  have last: "Q (step env Opt_D t)" if t: "?I t" for t
  proof (cases rule: step_cases [of env Opt_D t])
    case (raised e)
    with t show ?thesis by (simp add: Q_def)
  next
    case (interrupted e)
    have "\<exists>h. fst (optimizer_step env h Opt_D (nets s)) = Inl e \<and>
        stepped env (trace t) Opt_D (nets s) = stepped env h Opt_D (nets s)"
      using interrupted(1) t by (intro exI [of _ "trace t"]) simp
    with t show ?thesis
      unfolding interrupted(2) Q_def by simp
  next
    case returned
    have "\<exists>h. fst (optimizer_step env h Opt_D (nets s)) = Inr () \<and>
        stepped env (trace t) Opt_D (nets s) = stepped env h Opt_D (nets s)"
      using returned(1) t by (intro exI [of _ "trace t"]) simp
    with t show ?thesis
      unfolding returned(2) Q_def by simp
  qed
  have "Q r"
    unfolding r_def
    apply (rule thn_keepsI [where I = ?I and Q = Q, OF I no_step_keeps(2)], erule raised)
    apply (erule thn_keepsI [where I = ?I and Q = Q, OF _ no_step_keeps(3)], erule raised)
    apply (erule thn_keepsI [where I = ?I and Q = Q, OF _ no_step_keeps(5)], erule raised)
    apply (erule thn_keepsI [where I = ?I and Q = Q, OF _ no_step_keeps(6)], erule raised)
    apply (erule last)
    done
  then show ?thesis by (simp add: Q_def)
qed

lemma stepped_G_discriminators:
  "stepped env h Opt_G N D_A = N D_A" "stepped env h Opt_G N D_B = N D_B"
  by (simp_all add: stepped_def)

text \<open>
  C1 (as amended). An iteration ends in one of five ways. It returns: both optimizer
  steps have returned and all four networks have the weights of their update. It
  raises before the generator optimizer's step is called (in the forward pass, in
  lines 244 and 245, or in \<^verbatim>\<open>backward_G\<close>): no optimizer step is in the trace and the
  weights of all four networks are as they were, while gradient tracking is as it was
  or is left disabled on the discriminators. The generator optimizer's step raises:
  \<^verbatim>\<open>G_A\<close> and \<^verbatim>\<open>G_B\<close> have the weights the interrupted step left, \<^verbatim>\<open>D_A\<close> and \<^verbatim>\<open>D_B\<close> are
  as they were. It raises after the generator optimizer's step has returned and
  before the discriminator optimizer's step is called: \<^verbatim>\<open>G_A\<close> and \<^verbatim>\<open>G_B\<close> are
  updated, \<^verbatim>\<open>D_A\<close> and \<^verbatim>\<open>D_B\<close> are as they were. The discriminator optimizer's step
  raises: \<^verbatim>\<open>G_A\<close> and \<^verbatim>\<open>G_B\<close> are updated, \<^verbatim>\<open>D_A\<close> and \<^verbatim>\<open>D_B\<close> have the weights the
  interrupted step left.
\<close>

theorem optimize_parameters_updates:
  fixes env :: "'w env" and s :: "'w model"
  defines "r \<equiv> optimize_parameters env s"
  shows "(\<exists>hG hD. fst r = Inr () \<and>
            fst (optimizer_step env hG Opt_G (nets s)) = Inr () \<and>
            fst (optimizer_step env hD Opt_D (stepped env hG Opt_G (nets s))) = Inr () \<and>
            nets (snd r) = stepped env hD Opt_D (stepped env hG Opt_G (nets s))) \<or>
         (\<exists>e. fst r = Inl e \<and> nets (snd r) = nets s \<and>
            grows (\<lambda>e. \<not> is_step e) (trace s) (snd r) \<and>
            (net_requires_grad (snd r) = net_requires_grad s \<or>
             net_requires_grad (snd r) = frozen_D (net_requires_grad s))) \<or>
         (\<exists>e hG. fst r = Inl e \<and>
            fst (optimizer_step env hG Opt_G (nets s)) = Inl e \<and>
            nets (snd r) = stepped env hG Opt_G (nets s) \<and>
            nets (snd r) D_A = nets s D_A \<and> nets (snd r) D_B = nets s D_B) \<or>
         (\<exists>e hG. fst r = Inl e \<and>
            fst (optimizer_step env hG Opt_G (nets s)) = Inr () \<and>
            nets (snd r) = stepped env hG Opt_G (nets s) \<and>
            nets (snd r) D_A = nets s D_A \<and> nets (snd r) D_B = nets s D_B) \<or>
         (\<exists>e hG hD. fst r = Inl e \<and>
            fst (optimizer_step env hG Opt_G (nets s)) = Inr () \<and>
            fst (optimizer_step env hD Opt_D (stepped env hG Opt_G (nets s))) = Inl e \<and>
            nets (snd r) = stepped env hD Opt_D (stepped env hG Opt_G (nets s)))"
proof -
  let ?I = "\<lambda>t. nets t = nets s \<and> grows (\<lambda>e. \<not> is_step e) (trace s) t \<and>
     (net_requires_grad t = net_requires_grad s \<or>
      net_requires_grad t = frozen_D (net_requires_grad s))"
  define Q :: "(error + unit) \<times> 'w model \<Rightarrow> bool" where
    "Q = (\<lambda>r. (\<exists>hG hD. fst r = Inr () \<and>
            fst (optimizer_step env hG Opt_G (nets s)) = Inr () \<and>
            fst (optimizer_step env hD Opt_D (stepped env hG Opt_G (nets s))) = Inr () \<and>
            nets (snd r) = stepped env hD Opt_D (stepped env hG Opt_G (nets s))) \<or>
         (\<exists>e. fst r = Inl e \<and> nets (snd r) = nets s \<and>
            grows (\<lambda>e. \<not> is_step e) (trace s) (snd r) \<and>
            (net_requires_grad (snd r) = net_requires_grad s \<or>
             net_requires_grad (snd r) = frozen_D (net_requires_grad s))) \<or>
         (\<exists>e hG. fst r = Inl e \<and>
            fst (optimizer_step env hG Opt_G (nets s)) = Inl e \<and>
            nets (snd r) = stepped env hG Opt_G (nets s) \<and>
            nets (snd r) D_A = nets s D_A \<and> nets (snd r) D_B = nets s D_B) \<or>
         (\<exists>e hG. fst r = Inl e \<and>
            fst (optimizer_step env hG Opt_G (nets s)) = Inr () \<and>
            nets (snd r) = stepped env hG Opt_G (nets s) \<and>
            nets (snd r) D_A = nets s D_A \<and> nets (snd r) D_B = nets s D_B) \<or>
         (\<exists>e hG hD. fst r = Inl e \<and>
            fst (optimizer_step env hG Opt_G (nets s)) = Inr () \<and>
            fst (optimizer_step env hD Opt_D (stepped env hG Opt_G (nets s))) = Inl e \<and>
            nets (snd r) = stepped env hD Opt_D (stepped env hG Opt_G (nets s))))"
  have I: "?I s" by (simp add: grows_refl)
  have raised: "Q (Inl e, t)" if "?I t" for e t
    using that by (simp add: Q_def)
  have rest: "Q (thn (step env Opt_G) (thn (set_requires_grad_D True) (thn (zero_grad Opt_D)
      (thn (backward_D_A env) (thn (backward_D_B env) (step env Opt_D))))) t)"
    if t: "?I t" for t
  proof (cases rule: step_cases [of env Opt_G t])
    case (raised e)
    with t show ?thesis by (simp add: thn_Inl Q_def)
  next
    case (interrupted e)
    let ?t' = "t\<lparr>trace := trace t @ [Step Opt_G],
                 nets := stepped env (trace t) Opt_G (nets t)\<rparr>"
    have eq: "thn (step env Opt_G) k t = (Inl e, ?t')" for k :: "('w model, unit) m"
      using interrupted(2) by (simp add: thn_Inl)
    have "\<exists>hG. fst (optimizer_step env hG Opt_G (nets s)) = Inl e \<and>
        stepped env (trace t) Opt_G (nets s) = stepped env hG Opt_G (nets s)"
      using interrupted(1) t by (intro exI [of _ "trace t"]) simp
    with t show ?thesis
      unfolding eq Q_def by (simp add: stepped_G_discriminators)
  next
    case returned
    let ?t' = "t\<lparr>trace := trace t @ [Step Opt_G],
                 nets := stepped env (trace t) Opt_G (nets t)\<rparr>"
    have eq: "thn (step env Opt_G) k t = k ?t'" for k :: "('w model, unit) m"
      using returned(2) by (simp add: thn_def bnd_def)
    have n: "nets ?t' = stepped env (trace t) Opt_G (nets s)"
      using t by simp
    have g: "fst (optimizer_step env (trace t) Opt_G (nets s)) = Inr ()"
      using returned(1) t by simp
    let ?r = "thn (set_requires_grad_D True) (thn (zero_grad Opt_D) (thn (backward_D_A env)
      (thn (backward_D_B env) (step env Opt_D)))) ?t'"
    from phase_D_nets [of env ?t'] consider
      (before) e where "fst ?r = Inl e" "nets (snd ?r) = stepped env (trace t) Opt_G (nets s)"
      | (inside) e h where "fst ?r = Inl e"
        "fst (optimizer_step env h Opt_D (stepped env (trace t) Opt_G (nets s))) = Inl e"
        "nets (snd ?r) = stepped env h Opt_D (stepped env (trace t) Opt_G (nets s))"
      | (finished) h where "fst ?r = Inr ()"
        "fst (optimizer_step env h Opt_D (stepped env (trace t) Opt_G (nets s))) = Inr ()"
        "nets (snd ?r) = stepped env h Opt_D (stepped env (trace t) Opt_G (nets s))"
      unfolding n by blast
    then show ?thesis
    proof cases
      case before
      have "\<exists>hG. fst (optimizer_step env hG Opt_G (nets s)) = Inr () \<and>
          nets (snd ?r) = stepped env hG Opt_G (nets s)"
        using g before(2) by (intro exI [of _ "trace t"]) simp
      then have "\<exists>e hG. fst ?r = Inl e \<and>
          fst (optimizer_step env hG Opt_G (nets s)) = Inr () \<and>
          nets (snd ?r) = stepped env hG Opt_G (nets s) \<and>
          nets (snd ?r) D_A = nets s D_A \<and> nets (snd ?r) D_B = nets s D_B"
        using before(1) by (auto simp: stepped_G_discriminators)
      then show ?thesis
        unfolding eq Q_def by blast
    next
      case inside
      have "\<exists>e hG hD. fst ?r = Inl e \<and>
          fst (optimizer_step env hG Opt_G (nets s)) = Inr () \<and>
          fst (optimizer_step env hD Opt_D (stepped env hG Opt_G (nets s))) = Inl e \<and>
          nets (snd ?r) = stepped env hD Opt_D (stepped env hG Opt_G (nets s))"
        using g inside
        by (intro exI [of _ e] exI [of _ "trace t"] exI [of _ h]) simp
      then show ?thesis
        unfolding eq Q_def by blast
    next
      case finished
      have "\<exists>hG hD. fst ?r = Inr () \<and>
          fst (optimizer_step env hG Opt_G (nets s)) = Inr () \<and>
          fst (optimizer_step env hD Opt_D (stepped env hG Opt_G (nets s))) = Inr () \<and>
          nets (snd ?r) = stepped env hD Opt_D (stepped env hG Opt_G (nets s))"
        using g finished
        by (intro exI [of _ "trace t"] exI [of _ h]) simp
      then show ?thesis
        unfolding eq Q_def by blast
    qed
  qed
  have "Q r"
    unfolding r_def optimize_parameters_def
    apply (rule thn_keepsI [where I = ?I and Q = Q, OF I before_step_keeps(1)], erule raised)
    apply (erule thn_keepsI [where I = ?I and Q = Q, OF _ before_step_keeps(2)], erule raised)
    apply (erule thn_keepsI [where I = ?I and Q = Q, OF _ before_step_keeps(3)], erule raised)
    apply (erule thn_keepsI [where I = ?I and Q = Q, OF _ before_step_keeps(4)], erule raised)
    apply (erule rest)
    done
  then show ?thesis by (simp add: Q_def)
qed

text \<open>
  C1 as stated fails: when an image pool raises on its query, the iteration raises,
  yet the generators have been stepped (their weight counter went from 0 to 1) and
  the discriminators have not.
\<close>

theorem atomicity_counterexample:
  "fst (optimize_parameters env_pool_raises (after_set_input opts_default)) =
     Inl (RuntimeError ''pool'') \<and>
   nets (after_set_input opts_default) = (\<lambda>_. Some 0) \<and>
   nets (snd (optimize_parameters env_pool_raises (after_set_input opts_default))) G_A = Some 1 \<and>
   nets (snd (optimize_parameters env_pool_raises (after_set_input opts_default))) G_B = Some 1 \<and>
   nets (snd (optimize_parameters env_pool_raises (after_set_input opts_default))) D_A = Some 0 \<and>
   nets (snd (optimize_parameters env_pool_raises (after_set_input opts_default))) D_B = Some 0"
  by (simp add: default_run_defs env_pool_raises_def env_ok_def)

subsection \<open>The discriminator losses of an iteration\<close>

lemma backward_G_trace:
  assumes "backward_G env s = (Inr u, s')"
  shows "\<exists>pre l. trace s' = trace s @ pre @ [Backward l] \<and>
     list_all (\<lambda>e. \<not> is_backward e) pre"
proof -
  from assms obtain s1 s2 s3 where
    1: "identity_part env (opt s) s = (Inr (), s1)" and
    2: "normalize_diffs s1 = (Inr (), s2)" and
    3: "partial_losses env (opt s) s2 = (Inr (), s3)" and
    4: "combined_loss_backward s3 = (Inr (), s')"
    unfolding backward_G_Inr by blast
  have "grows (\<lambda>e. \<not> is_backward e) (trace s) s1"
    by (rule keeps_run [OF before_combined_no_backward(1) grows_refl 1])
  then have "grows (\<lambda>e. \<not> is_backward e) (trace s) s2"
    by (rule keeps_run [OF before_combined_no_backward(2) _ 2])
  then have "grows (\<lambda>e. \<not> is_backward e) (trace s) s3"
    by (rule keeps_run [OF before_combined_no_backward(3) _ 3])
  then obtain pre where pre: "trace s3 = trace s @ pre" "list_all (\<lambda>e. \<not> is_backward e) pre"
    unfolding grows_def by blast
  from 4 obtain l where
    "s' = s3\<lparr>losses := (losses s3)(loss_G \<mapsto> l), trace := trace s3 @ [Backward l]\<rparr>"
    unfolding combined_loss_backward_Inr by blast
  with pre show ?thesis by auto
qed

lemma backward_G_frame:
  "keeps (\<lambda>s. nets s = N \<and> tensors s real_A = rA \<and> tensors s real_B = rB \<and>
       tensors s fake_A = fA \<and> tensors s fake_B = fB) (backward_G env)"
  unfolding backward_G_def identity_defs after_identity_defs
  by (auto intro!: keeps_intros)

lemma forward_frame:
  assumes "forward env s = (Inr u, s')"
  shows "nets s' = nets s" "\<exists>evs. trace s' = trace s @ evs \<and> list_all (\<lambda>e. \<not> is_backward e) evs"
  using assms
  by (clarsimp simp: forward_def call_G_Inr set_tensor_def run_Inr)+

text \<open>
  C4. A call of \<^verbatim>\<open>backward_D_basic\<close> that returns has back-propagated and returned
  half the sum of the adversarial loss of \<^verbatim>\<open>D(real)\<close> against the real label and of
  \<^verbatim>\<open>D(fake.detach())\<close> against the fake label (\<open>stated_D_loss\<close>), having evaluated the
  discriminator on the real batch and on the detached fake batch. An iteration that
  returns has applied it exactly twice, after the generator step: to \<^verbatim>\<open>D_A\<close> with
  \<^verbatim>\<open>real_B\<close> and the pool's answer to \<^verbatim>\<open>fake_B\<close>, then to \<^verbatim>\<open>D_B\<close> with \<^verbatim>\<open>real_A\<close> and the
  pool's answer to \<^verbatim>\<open>fake_A\<close>; the only other back-propagation of the iteration is
  that of the generator loss.
\<close>

theorem discriminator_losses:
  assumes "optimize_parameters env s = (Inr u, s')"
  shows "(\<forall>n w x y t l t'. backward_D_basic env n w x y t = (Inr l, t') \<longrightarrow>
       stated_D_loss env n w x y = Inr l \<and> \<not> requires_grad (detach y) \<and>
       trace t' = trace t @ [Call_net n x, Call_net n (detach y), Backward l]) \<and>
     (\<exists>pre lG fA fB rA rB qA qB hA hB wA wB lA lB.
       trace s' = trace s @ pre @
         [Backward lG, Step Opt_G, Set_requires_grad [D_A, D_B] True, Zero_grad Opt_D,
          Pool_query Pool_B fB, Call_net D_A rB, Call_net D_A (detach qB), Backward lA,
          Pool_query Pool_A fA, Call_net D_B rA, Call_net D_B (detach qA), Backward lB,
          Step Opt_D] \<and>
       list_all (\<lambda>e. \<not> is_backward e) pre \<and>
       tensors s' fake_B = Some fB \<and> tensors s' real_B = Some rB \<and>
       tensors s' fake_A = Some fA \<and> tensors s' real_A = Some rA \<and>
       pool_query env Pool_B hB fB = Inr qB \<and> pool_query env Pool_A hA fA = Inr qA \<and>
       nets s D_A = Some wA \<and> nets s D_B = Some wB \<and>
       stated_D_loss env D_A wA rB qB = Inr lA \<and> stated_D_loss env D_B wB rA qA = Inr lB \<and>
       losses s' loss_D_A = Some lA \<and> losses s' loss_D_B = Some lB)"
proof (rule conjI)
  show "\<forall>n w x y t l t'. backward_D_basic env n w x y t = (Inr l, t') \<longrightarrow>
       stated_D_loss env n w x y = Inr l \<and> \<not> requires_grad (detach y) \<and>
       trace t' = trace t @ [Call_net n x, Call_net n (detach y), Backward l]"
    by (simp add: backward_D_basic_Inr detach_def)
next
  from assms obtain s1 s2 s3 s4 s5 s6 s7 s8 s9 where
    r: "forward env s = (Inr (), s1)" "set_requires_grad_D False s1 = (Inr (), s2)"
      "zero_grad Opt_G s2 = (Inr (), s3)" "backward_G env s3 = (Inr (), s4)"
      "step env Opt_G s4 = (Inr (), s5)" "set_requires_grad_D True s5 = (Inr (), s6)"
      "zero_grad Opt_D s6 = (Inr (), s7)" "backward_D_A env s7 = (Inr (), s8)"
      "backward_D_B env s8 = (Inr (), s9)" "step env Opt_D s9 = (Inr (), s')"
    unfolding optimize_parameters_Inr by blast
  from forward_frame [OF r(1)] obtain e1 where
    n1: "nets s1 = nets s" and t1: "trace s1 = trace s @ e1" "list_all (\<lambda>e. \<not> is_backward e) e1"
    by blast
  from r(2) have s2: "nets s2 = nets s1" "tensors s2 = tensors s1"
    "trace s2 = trace s1 @ [Set_requires_grad [D_A, D_B] False]"
    by (simp_all add: set_requires_grad_D_Inr)
  from r(3) have s3: "nets s3 = nets s2" "tensors s3 = tensors s2"
    "trace s3 = trace s2 @ [Zero_grad Opt_G]"
    by (simp_all add: zero_grad_Inr)
  from backward_G_trace [OF r(4)] obtain e4 lG where
    t4: "trace s4 = trace s3 @ e4 @ [Backward lG]" "list_all (\<lambda>e. \<not> is_backward e) e4"
    by blast
  have f4: "nets s4 = nets s3 \<and> tensors s4 real_A = tensors s3 real_A \<and>
      tensors s4 real_B = tensors s3 real_B \<and> tensors s4 fake_A = tensors s3 fake_A \<and>
      tensors s4 fake_B = tensors s3 fake_B"
    by (rule keeps_run [OF backward_G_frame _ r(4)]) simp
  from r(5) have s5: "nets s5 = stepped env (trace s4) Opt_G (nets s4)"
    "tensors s5 = tensors s4" "trace s5 = trace s4 @ [Step Opt_G]"
    by (simp_all add: step_Inr)
  from r(6) have s6: "nets s6 = nets s5" "tensors s6 = tensors s5"
    "trace s6 = trace s5 @ [Set_requires_grad [D_A, D_B] True]"
    by (simp_all add: set_requires_grad_D_Inr)
  from r(7) have s7: "nets s7 = nets s6" "tensors s7 = tensors s6"
    "trace s7 = trace s6 @ [Zero_grad Opt_D]"
    by (simp_all add: zero_grad_Inr)
  from r(8) obtain fB qB wA rB lA where
    a: "tensors s7 fake_B = Some fB" "pool_query env Pool_B (trace s7) fB = Inr qB"
      "nets s7 D_A = Some wA" "tensors s7 real_B = Some rB"
      "stated_D_loss env D_A wA rB qB = Inr lA" and
    s8: "s8 = s7\<lparr>trace := trace s7 @
           [Pool_query Pool_B fB, Call_net D_A rB, Call_net D_A (detach qB), Backward lA],
         losses := (losses s7)(loss_D_A \<mapsto> lA)\<rparr>"
    unfolding backward_D_A_Inr by blast
  from r(9) obtain fA qA wB rA lB where
    b: "tensors s8 fake_A = Some fA" "pool_query env Pool_A (trace s8) fA = Inr qA"
      "nets s8 D_B = Some wB" "tensors s8 real_A = Some rA"
      "stated_D_loss env D_B wB rA qA = Inr lB" and
    s9: "s9 = s8\<lparr>trace := trace s8 @
           [Pool_query Pool_A fA, Call_net D_B rA, Call_net D_B (detach qA), Backward lB],
         losses := (losses s8)(loss_D_B \<mapsto> lB)\<rparr>"
    unfolding backward_D_B_Inr by blast
  from r(10) have s': "s' = s9\<lparr>trace := trace s9 @ [Step Opt_D],
      nets := stepped env (trace s9) Opt_D (nets s9)\<rparr>"
    by (simp add: step_Inr)
  have nD: "nets s7 D_A = nets s D_A" "nets s7 D_B = nets s D_B"
    by (simp_all add: s7 s6 s5 f4 s3 s2 n1 stepped_def)
  let ?pre = "e1 @ [Set_requires_grad [D_A, D_B] False, Zero_grad Opt_G] @ e4"
  show "\<exists>pre lG fA fB rA rB qA qB hA hB wA wB lA lB.
       trace s' = trace s @ pre @
         [Backward lG, Step Opt_G, Set_requires_grad [D_A, D_B] True, Zero_grad Opt_D,
          Pool_query Pool_B fB, Call_net D_A rB, Call_net D_A (detach qB), Backward lA,
          Pool_query Pool_A fA, Call_net D_B rA, Call_net D_B (detach qA), Backward lB,
          Step Opt_D] \<and>
       list_all (\<lambda>e. \<not> is_backward e) pre \<and>
       tensors s' fake_B = Some fB \<and> tensors s' real_B = Some rB \<and>
       tensors s' fake_A = Some fA \<and> tensors s' real_A = Some rA \<and>
       pool_query env Pool_B hB fB = Inr qB \<and> pool_query env Pool_A hA fA = Inr qA \<and>
       nets s D_A = Some wA \<and> nets s D_B = Some wB \<and>
       stated_D_loss env D_A wA rB qB = Inr lA \<and> stated_D_loss env D_B wB rA qA = Inr lB \<and>
       losses s' loss_D_A = Some lA \<and> losses s' loss_D_B = Some lB"
    apply (rule exI [of _ ?pre], rule exI [of _ lG], rule exI [of _ fA], rule exI [of _ fB])
    apply (rule exI [of _ rA], rule exI [of _ rB], rule exI [of _ qA], rule exI [of _ qB])
    apply (rule exI [of _ "trace s8"], rule exI [of _ "trace s7"])
    apply (rule exI [of _ wA], rule exI [of _ wB], rule exI [of _ lA], rule exI [of _ lB])
    using a b nD t1 t4
    by (simp add: s' s9 s8 s7 s6 s5 s3 s2)
qed

theorem discriminator_losses_witness:
  "optimize_parameters env_ok (after_set_input opts_default) =
     (Inr (), snd (optimize_parameters env_ok (after_set_input opts_default))) \<and>
   (\<exists>pre lG fA fB rA rB qA qB hA hB wA wB lA lB.
       trace (snd (optimize_parameters env_ok (after_set_input opts_default))) =
         trace (after_set_input opts_default) @ pre @
         [Backward lG, Step Opt_G, Set_requires_grad [D_A, D_B] True, Zero_grad Opt_D,
          Pool_query Pool_B fB, Call_net D_A rB, Call_net D_A (detach qB), Backward lA,
          Pool_query Pool_A fA, Call_net D_B rA, Call_net D_B (detach qA), Backward lB,
          Step Opt_D] \<and>
       list_all (\<lambda>e. \<not> is_backward e) pre \<and>
       stated_D_loss env_ok D_A wA rB qB = Inr lA \<and>
       stated_D_loss env_ok D_B wB rA qA = Inr lB \<and>
       losses (snd (optimize_parameters env_ok (after_set_input opts_default))) loss_D_A
         = Some lA \<and>
       losses (snd (optimize_parameters env_ok (after_set_input opts_default))) loss_D_B
         = Some lB)"
proof -
  from discriminator_losses [OF default_run_returns, THEN conjunct2]
  have "\<exists>pre lG fA fB rA rB qA qB hA hB wA wB lA lB.
       trace (snd (optimize_parameters env_ok (after_set_input opts_default))) =
         trace (after_set_input opts_default) @ pre @
         [Backward lG, Step Opt_G, Set_requires_grad [D_A, D_B] True, Zero_grad Opt_D,
          Pool_query Pool_B fB, Call_net D_A rB, Call_net D_A (detach qB), Backward lA,
          Pool_query Pool_A fA, Call_net D_B rA, Call_net D_B (detach qA), Backward lB,
          Step Opt_D] \<and>
       list_all (\<lambda>e. \<not> is_backward e) pre \<and>
       stated_D_loss env_ok D_A wA rB qB = Inr lA \<and>
       stated_D_loss env_ok D_B wB rA qA = Inr lB \<and>
       losses (snd (optimize_parameters env_ok (after_set_input opts_default))) loss_D_A
         = Some lA \<and>
       losses (snd (optimize_parameters env_ok (after_set_input opts_default))) loss_D_B
         = Some lB"
    by blast
  with default_run_returns show ?thesis by (rule conjI)
qed

subsection \<open>Training without reference difference maps\<close>

lemma set_input_keeps_real_diff:
  assumes "dataset_type (opt s) = ''common_images'' \<or>
     (dataset_type (opt s) = ''remote_sensing_images'' \<and> phase (opt s) \<noteq> ''train'')"
  shows "tensors (snd (set_input inp s)) real_diff_A = tensors s real_diff_A"
proof -
  have "tensors (snd (set_input inp s)) real_diff_A = tensors s real_diff_A"
    using assms
    by (auto simp: set_input_def statement_defs split: sum.splits prod.splits)
  then show ?thesis .
qed

lemma no_real_diff_keeps:
  "keeps (\<lambda>s. tensors s real_diff_A = None \<and> nets s = N \<and> grows (\<lambda>e. \<not> is_step e) t0 s)
     (forward env)"
  "keeps (\<lambda>s. tensors s real_diff_A = None \<and> nets s = N \<and> grows (\<lambda>e. \<not> is_step e) t0 s)
     (set_requires_grad_D b)"
  "keeps (\<lambda>s. tensors s real_diff_A = None \<and> nets s = N \<and> grows (\<lambda>e. \<not> is_step e) t0 s)
     (zero_grad p)"
  "keeps (\<lambda>s. tensors s real_diff_A = None \<and> nets s = N \<and> grows (\<lambda>e. \<not> is_step e) t0 s)
     (backward_G env)"
  unfolding forward_defs set_requires_grad_D_def set_requires_grad_def zero_grad_def
    backward_G_def identity_defs after_identity_defs
  by (auto intro!: keeps_intros grows_emit)

lemma identity_part_keeps_real_diff:
  "keeps (\<lambda>s. tensors s real_diff_A = None) (identity_part env opts)"
  unfolding identity_defs by (auto intro!: keeps_intros)

lemma normalize_diffs_raises:
  assumes "tensors s real_diff_A = None"
  shows "normalize_diffs s = (Inl (AttributeError (T real_diff_A)), s)"
  using assms
  by (simp add: normalize_diffs_def set_sample_norms_def thn_def bnd_def get_tensor_def
      attribute_def)

lemma backward_G_raises:
  assumes "tensors s real_diff_A = None"
  shows "\<exists>e. fst (backward_G env s) = Inl e"
proof (cases "identity_part env (opt s) s")
  case (Pair r s1)
  show ?thesis
  proof (cases r)
    case (Inl e)
    with Pair show ?thesis by (simp add: backward_G_def thn_def bnd_def reads_def)
  next
    case (Inr u)
    have "tensors s1 real_diff_A = None"
      by (rule keeps_run [OF identity_part_keeps_real_diff assms Pair])
    from normalize_diffs_raises [OF this] Pair Inr show ?thesis
      by (simp add: backward_G_def thn_def bnd_def reads_def)
  qed
qed

lemma before_line_214_then_raises:
  assumes "fst (before_line_214 env s) = Inr ()" and "tensors s real_diff_A = None"
  shows "fst (optimize_parameters env s) = Inl (AttributeError (T real_diff_A))"
proof -
  from assms(1) have "before_line_214 env s = (Inr (), snd (before_line_214 env s))"
    by (simp add: prod_eq_iff)
  then obtain s1 s2 s3 s4 where
    r: "forward env s = (Inr (), s1)" "set_requires_grad_D False s1 = (Inr (), s2)"
      "zero_grad Opt_G s2 = (Inr (), s3)" "identity_part env (opt s3) s3 = (Inr (), s4)"
    unfolding before_line_214_def by (auto simp: run_Inr)
  let ?I = "\<lambda>t. tensors t real_diff_A = None \<and> nets t = nets s \<and>
     grows (\<lambda>e. \<not> is_step e) (trace s) t"
  have "?I s" using assms(2) by (simp add: grows_refl)
  then have "?I s1" by (rule keeps_run [OF no_real_diff_keeps(1) _ r(1)])
  then have "?I s2" by (rule keeps_run [OF no_real_diff_keeps(2) _ r(2)])
  then have "?I s3" by (rule keeps_run [OF no_real_diff_keeps(3) _ r(3)])
  then have "tensors s3 real_diff_A = None" by simp
  then have "tensors s4 real_diff_A = None"
    by (rule keeps_run [OF identity_part_keeps_real_diff _ r(4)])
  from normalize_diffs_raises [OF this] r(4)
  have "backward_G env s3 = (Inl (AttributeError (T real_diff_A)), s4)"
    by (simp add: backward_G_def thn_def bnd_def reads_def)
  then show ?thesis
    by (simp add: optimize_parameters_def thn_def bnd_def r(1-3))
qed

text \<open>
  C10. \<^verbatim>\<open>set_input\<close> assigns \<^verbatim>\<open>real_diff_A\<close> and \<^verbatim>\<open>real_diff_B\<close> only for the dataset type
  \<^verbatim>\<open>remote_sensing_images\<close> in the phase \<^verbatim>\<open>train\<close>. For the dataset type \<^verbatim>\<open>common_images\<close>,
  or for remote-sensing data outside the training phase, on a model on which
  \<^verbatim>\<open>real_diff_A\<close> has not been assigned, \<^verbatim>\<open>optimize_parameters\<close> after \<^verbatim>\<open>set_input\<close> raises
  before any optimizer step: no step is in the trace and the networks are as they
  were. The exception is the \<^verbatim>\<open>AttributeError\<close> for \<^verbatim>\<open>real_diff_A\<close>, raised at line 214,
  whenever the statements before that line raise nothing.
\<close>

theorem optimize_parameters_without_real_diff:
  assumes "dataset_type (opt s0) = ''common_images'' \<or>
     (dataset_type (opt s0) = ''remote_sensing_images'' \<and> phase (opt s0) \<noteq> ''train'')"
    and "tensors s0 real_diff_A = None"
    and "set_input inp s0 = (u, s)"
  shows "(\<exists>e. fst (optimize_parameters env s) = Inl e) \<and>
     nets (snd (optimize_parameters env s)) = nets s \<and>
     grows (\<lambda>e. \<not> is_step e) (trace s) (snd (optimize_parameters env s)) \<and>
     (fst (before_line_214 env s) = Inr () \<longrightarrow>
        fst (optimize_parameters env s) = Inl (AttributeError (T real_diff_A)))"
proof -
  let ?I = "\<lambda>t. tensors t real_diff_A = None \<and> nets t = nets s \<and>
     grows (\<lambda>e. \<not> is_step e) (trace s) t"
  define Q :: "(error + unit) \<times> 'a model \<Rightarrow> bool" where
    "Q = (\<lambda>r. (\<exists>e. fst r = Inl e) \<and> nets (snd r) = nets s \<and>
       grows (\<lambda>e. \<not> is_step e) (trace s) (snd r))"
  have none: "tensors s real_diff_A = None"
    using set_input_keeps_real_diff [OF assms(1), of inp] assms(2,3) by simp
  then have I: "?I s" by (simp add: grows_refl)
  have raised: "Q (Inl e, t)" if "?I t" for e t
    using that by (simp add: Q_def)
  have rest: "Q (thn (backward_G env) k t)" if t: "?I t" for t and k :: "('a model, unit) m"
  proof -
    from t backward_G_raises [of t env] obtain e where e: "fst (backward_G env t) = Inl e"
      by blast
    then have "thn (backward_G env) k t = (Inl e, snd (backward_G env t))"
      by (cases "backward_G env t") (simp add: thn_Inl)
    with keepsD [OF no_real_diff_keeps(4) t, of env] show ?thesis
      by (simp add: Q_def)
  qed
  have "Q (optimize_parameters env s)"
    unfolding optimize_parameters_def
    apply (rule thn_keepsI [where I = ?I and Q = Q, OF I no_real_diff_keeps(1)], erule raised)
    apply (erule thn_keepsI [where I = ?I and Q = Q, OF _ no_real_diff_keeps(2)], erule raised)
    apply (erule thn_keepsI [where I = ?I and Q = Q, OF _ no_real_diff_keeps(3)], erule raised)
    apply (erule rest)
    done
  with before_line_214_then_raises [OF _ none, of env] show ?thesis
    by (simp add: Q_def)
qed

lemma common_run:
  "fst (set_input input_common (new_model opts_common (\<lambda>_. Some (0::nat)))) = Inr ()"
  "fst (before_line_214 env_ok
     (snd (set_input input_common (new_model opts_common (\<lambda>_. Some 0))))) = Inr ()"
  by (simp_all add: set_input_def item_to_device_def item_def input_common_def
      before_line_214_def forward_def identity_defs set_requires_grad_D_def
      set_requires_grad_def zero_grad_def statement_defs tensor_defs new_model_def
      opts_common_def opts_default_def opts_no_identity_def unit_batch_def env_ok_def)

theorem optimize_parameters_without_real_diff_witness:
  "dataset_type (opt (new_model opts_common (\<lambda>_. Some (0::nat)))) = ''common_images'' \<and>
   tensors (new_model opts_common (\<lambda>_. Some (0::nat))) real_diff_A = None \<and>
   fst (set_input input_common (new_model opts_common (\<lambda>_. Some (0::nat)))) = Inr () \<and>
   fst (before_line_214 env_ok
     (snd (set_input input_common (new_model opts_common (\<lambda>_. Some 0))))) = Inr () \<and>
   fst (optimize_parameters env_ok
     (snd (set_input input_common (new_model opts_common (\<lambda>_. Some 0))))) =
     Inl (AttributeError (T real_diff_A)) \<and>
   nets (snd (optimize_parameters env_ok
     (snd (set_input input_common (new_model opts_common (\<lambda>_. Some 0)))))) = (\<lambda>_. Some 0)"
proof -
  have d: "dataset_type (opt (new_model opts_common (\<lambda>_. Some (0::nat)))) = ''common_images''"
    by (simp add: new_model_def opts_common_def)
  have n: "tensors (new_model opts_common (\<lambda>_. Some (0::nat))) real_diff_A = None"
    by (simp add: new_model_def)
  have k: "nets (snd (set_input input_common (new_model opts_common (\<lambda>_. Some (0::nat))))) =
      (\<lambda>_. Some 0)"
    by (simp add: set_input_def item_to_device_def item_def input_common_def statement_defs
        new_model_def opts_common_def)
  have r: "set_input input_common (new_model opts_common (\<lambda>_. Some (0::nat))) =
      (Inr (), snd (set_input input_common (new_model opts_common (\<lambda>_. Some 0))))"
    using common_run(1) by (simp add: prod_eq_iff)
  from optimize_parameters_without_real_diff [OF disjI1 [OF d] n r, of env_ok]
    common_run d n k
  show ?thesis by simp
qed

subsection \<open>The difference-consistency loss on a batch of two samples\<close>

lemma sqrt_quarter: "sqrt (1 / 4) = 1 / 2"
  by (simp add: real_sqrt_divide)

text \<open>
  C7. The claim: when every sample of the generated difference map is a positive
  multiple of the same sample of the reference map, with positive per-sample norms,
  the difference-consistency loss is zero. Line 222 divides the batch of shape
  (B, C, H, W) by the vector of per-sample norms of shape (B,), which broadcasting
  aligns with the W axis, not with the batch axis. On the batch of two samples and
  two columns below, each column is divided by the norm of the sample with the
  column's index and \<^verbatim>\<open>loss_diff_A\<close> is 15/4; on the batch of two samples and three
  columns the division raises a size mismatch.
\<close>

theorem diff_loss_two_samples:
  "data diff_pair = [scale_sample 1 (data ref_pair ! 0), scale_sample 2 (data ref_pair ! 1)] \<and>
   sample_norms ref_pair = [Fin 1, Fin 1] \<and> sample_norms diff_pair = [Fin 1, Fin 2] \<and>
   fst (backward_G env_ok (with_diff_A ref_pair diff_pair)) = Inr () \<and>
   losses (snd (backward_G env_ok (with_diff_A ref_pair diff_pair))) loss_diff_A
     = Some (Fin (15 / 4)) \<and>
   data diff_pair3 = [scale_sample 1 (data ref_pair3 ! 0), scale_sample 2 (data ref_pair3 ! 1)] \<and>
   fst (backward_G env_ok (with_diff_A ref_pair3 diff_pair3))
     = Inl (RuntimeError ''size mismatch'')"
  by (simp add: backward_G_defs statement_defs tensor_defs env_ok_def with_diff_A_def
      after_forward_def new_model_def opts_default_def opts_no_identity_def unit_batch_def
      ref_pair_def diff_pair_def ref_pair3_def diff_pair3_def scale_sample_def sqrt_quarter)

subsection \<open>Values that are not finite\<close>











lemma nonfinite1_concat: "nonfinite2 xs \<Longrightarrow> nonfinite1 (concat xs)"
  by (auto simp: nonfinite1_def nonfinite2_def list_ex_iff)

subsection \<open>Elements of a transposed list of lists\<close>






subsection \<open>Broadcasting a value that is not finite\<close>








subsection \<open>Division by a per-sample norm of zero\<close>











subsection \<open>A zero per-sample norm in \<^verbatim>\<open>backward_G\<close>\<close>











end
